theory Spec2Isabelle
  imports Main
begin

section \<open>Remote gateway: how an outbound call ends\<close>

text \<open>
  Every axios call of \<^verbatim>\<open>App.js\<close> either resolves with \<^verbatim>\<open>response.data\<close> or rejects.
  The source classifies a rejection with
  \<^verbatim>\<open>isNetworkError = (err) => err && err.isAxiosError && !err.response\<close>:
  no response at all is \<open>Unreachable\<close>, a response with a non-success status is
  \<open>Rejected\<close>, which carries \<^verbatim>\<open>error.response.data.detail\<close> when there is one. The
  result of a call is an input of the model.
\<close>

datatype 'a outcome = Ok 'a | Unreachable | Rejected "string option"

definition isNetworkError :: "'a outcome \<Rightarrow> bool" where
  "isNetworkError r = (case r of Unreachable \<Rightarrow> True | Ok _ \<Rightarrow> False | Rejected _ \<Rightarrow> False)"

section \<open>Data model\<close>

text \<open>
  The user object \<^verbatim>\<open>{id, name, email, credits, created_at}\<close>. The field
  \<^verbatim>\<open>credits\<close> is read with \<^verbatim>\<open>currentUser.credits ?? 100\<close>, so it may be missing.
\<close>

record identity =
  uid :: string
  uname :: string
  uemail :: string
  credits :: "int option"
  created_at :: string

record uploaded_file =
  file_id :: string
  file_name :: string
  file_size :: nat

text \<open>
  The four numbers of \<^verbatim>\<open>userStats\<close> and the credits of a user are JavaScript numbers.
  The model keeps the integer ones, as \<open>int\<close>; where the source computes with them
  (\<^verbatim>\<open>+ 1\<close> and \<^verbatim>\<open>- 1\<close> in the local debit) the result is rounded as the double
  arithmetic rounds it, see \<open>toDouble\<close> below.
\<close>

record user_stats =
  credits_remaining :: int
  total_questions_asked :: int
  reports_generated :: int
  credits_used :: int

record report =
  report_id :: string
  report_question_id :: string
  report_user_id :: string
  report_text :: string
  citations :: "string list"
  sources_used :: "string list"
  live_data_included :: bool
  report_created_at :: string

record research_question =
  question_id :: string
  question_user_id :: string
  question_text :: string
  files :: "string list"
  status :: string
  question_created_at :: string

record report_item =
  item_report :: report
  item_question :: research_question

text \<open>What the program does besides changing its React state.\<close>

datatype toast = ToastSuccess string | ToastError string

datatype console = ConsoleLog string | ConsoleWarn string | ConsoleError string

datatype request =
    GetUsers string
  | PostUsers string string
  | PostAuthSignup string string string
  | PostAuthLogin string string
  | PostUpload string
  | PostResearch string string "string list"
  | GetResearch string
  | GetStats string
  | GetReports string

text \<open>
  \<^verbatim>\<open>localStorage['researchAssistantUser']\<close> holds \<^verbatim>\<open>JSON.stringify(user)\<close>;
  \<open>Json u\<close> is a string that \<^verbatim>\<open>JSON.parse\<close> reads back as \<open>u\<close>, \<open>Malformed\<close> one on
  which \<^verbatim>\<open>JSON.parse\<close> throws. The writes are recorded in order.
\<close>

datatype stored = Json identity | Malformed

datatype storage_op = SetItem identity | RemoveItem

record auth_form =
  form_name :: string
  form_email :: string
  form_password :: string

record session =
  currentUser :: "identity option"
  question :: string
  uploadedFiles :: "uploaded_file list"
  isProcessing :: bool
  reports :: "report_item list"
  userStats :: "user_stats option"
  activeTab :: string
  showAuth :: bool
  authMode :: string
  authForm :: auth_form
  localStorage :: "stored option"
  storage_writes :: "storage_op list"
  requests :: "request list"
  toasts :: "toast list"
  console_out :: "console list"
  polling :: "(string \<times> identity) list"

text \<open>
  Besides the React state, the local storage and what the program has sent and shown, a
  session holds the polling loops that were started and have not run yet: each with its
  question id and with the \<^verbatim>\<open>currentUser\<close> of the render whose
  \<^verbatim>\<open>submitResearchQuestion\<close> started it, which is the user its closures keep reading.

  The state after the \<^verbatim>\<open>useState\<close> initialisers, over a given local storage:
\<close>

definition initial :: "stored option \<Rightarrow> session" where
  "initial st =
     \<lparr>currentUser = None, question = [], uploadedFiles = [], isProcessing = False,
      reports = [], userStats = None, activeTab = ''research'', showAuth = False,
      authMode = ''login'',
      authForm = \<lparr>form_name = [], form_email = [], form_password = []\<rparr>,
      localStorage = st, storage_writes = [], requests = [], toasts = [],
      console_out = [], polling = []\<rparr>"

subsection \<open>Effects\<close>

definition toast_success :: "string \<Rightarrow> session \<Rightarrow> session" where
  "toast_success m s = s\<lparr>toasts := toasts s @ [ToastSuccess m]\<rparr>"

definition toast_error :: "string \<Rightarrow> session \<Rightarrow> session" where
  "toast_error m s = s\<lparr>toasts := toasts s @ [ToastError m]\<rparr>"

definition console_log :: "string \<Rightarrow> session \<Rightarrow> session" where
  "console_log m s = s\<lparr>console_out := console_out s @ [ConsoleLog m]\<rparr>"

definition console_warn :: "string \<Rightarrow> session \<Rightarrow> session" where
  "console_warn m s = s\<lparr>console_out := console_out s @ [ConsoleWarn m]\<rparr>"

definition console_error :: "string \<Rightarrow> session \<Rightarrow> session" where
  "console_error m s = s\<lparr>console_out := console_out s @ [ConsoleError m]\<rparr>"

text \<open>
  A call of axios: the request goes out, and when the call fails the response
  interceptor installed at lines 37 to 48 logs \<^verbatim>\<open>console.error('Axios error:', ...)\<close>
  before the failure reaches the caller.
\<close>

definition send :: "request \<Rightarrow> session \<Rightarrow> session" where
  "send r s = s\<lparr>requests := requests s @ [r]\<rparr>"

definition interceptor :: "'a outcome \<Rightarrow> session \<Rightarrow> session" where
  "interceptor res s =
     (case res of
        Ok data \<Rightarrow> s
      | Unreachable \<Rightarrow> console_error ''Axios error:'' s
      | Rejected d \<Rightarrow> console_error ''Axios error:'' s)"

definition axios :: "request \<Rightarrow> 'a outcome \<Rightarrow> session \<Rightarrow> session" where
  "axios r res s = interceptor res (send r s)"

definition setItem :: "identity \<Rightarrow> session \<Rightarrow> session" where
  "setItem u s =
     s\<lparr>localStorage := Some (Json u), storage_writes := storage_writes s @ [SetItem u]\<rparr>"

definition removeItem :: "session \<Rightarrow> session" where
  "removeItem s = s\<lparr>localStorage := None, storage_writes := storage_writes s @ [RemoveItem]\<rparr>"

subsection \<open>Numbers\<close>

text \<open>
  The integer \<open>x\<close> as the double nearest to it, ties to even, for \<open>x\<close> below the overflow
  threshold of doubles: an integer of more than 53 bits loses its low bits. Integers up
  to \<open>2 ^ 53\<close> in magnitude are doubles themselves.
\<close>

fun bitLength :: "nat \<Rightarrow> nat" where
  "bitLength n = (if n = 0 then 0 else Suc (bitLength (n div 2)))"

declare bitLength.simps [simp del]

definition toDouble :: "int \<Rightarrow> int" where
  "toDouble x =
     (let n = nat \<bar>x\<bar>;
          e = bitLength n - 53;
          q = n div 2 ^ e;
          r = n mod 2 ^ e;
          q' = (if 2 ^ e < 2 * r \<or> (2 * r = 2 ^ e \<and> odd q) then q + 1 else q)
      in sgn x * int (q' * 2 ^ e))"

text \<open>\<^verbatim>\<open>Number.isSafeInteger\<close>: below \<open>2 ^ 53\<close> in magnitude.\<close>

definition isSafeInteger :: "int \<Rightarrow> bool" where
  "isSafeInteger x = (\<bar>x\<bar> < 2 ^ 53)"

subsection \<open>Strings\<close>

text \<open>\<^verbatim>\<open>String(n)\<close> for a non-negative integer such as \<^verbatim>\<open>Date.now()\<close>.\<close>

fun toString :: "nat \<Rightarrow> string" where
  "toString n =
     (if n < 10 then [''0123456789'' ! n]
      else toString (n div 10) @ [''0123456789'' ! (n mod 10)])"

declare toString.simps [simp del]

text \<open>\<^verbatim>\<open>s.startsWith(p)\<close>.\<close>

definition startsWith :: "string \<Rightarrow> string \<Rightarrow> bool" where
  "startsWith s p = (take (length p) s = p)"

text \<open>\<^verbatim>\<open>xs.join(sep)\<close>.\<close>

fun join :: "string \<Rightarrow> string list \<Rightarrow> string" where
  "join sep [] = []"
| "join sep [x] = x"
| "join sep (x # y # ys) = x @ sep @ join sep (y # ys)"

text \<open>
  \<^verbatim>\<open>s.trim()\<close>: white space and line terminators are removed at both ends. Of the
  characters JavaScript counts, those below 256 are the ones a \<open>char\<close> can hold: tab, line
  feed, vertical tab, form feed, carriage return, space and the no-break space.
\<close>

definition isWhiteSpace :: "char \<Rightarrow> bool" where
  "isWhiteSpace c = (c \<in> set [CHR 0x09, CHR 0x0A, CHR 0x0B, CHR 0x0C, CHR 0x0D, CHR 0x20, CHR 0xA0])"

definition trim :: "string \<Rightarrow> string" where
  "trim s = rev (dropWhile isWhiteSpace (rev (dropWhile isWhiteSpace s)))"

section \<open>Identity resolver\<close>

text \<open>
  Lines 136 to 166 of \<^verbatim>\<open>checkAuthStatus\<close>: no valid user is cached, so one is created.
  \<open>now_email\<close> and \<open>now_id\<close> are the two readings of \<^verbatim>\<open>Date.now()\<close>, \<open>now_iso\<close> is
  \<^verbatim>\<open>new Date().toISOString()\<close>, \<open>post_res\<close> is how \<^verbatim>\<open>axios.post(`users`, userData)\<close> ends.
\<close>

definition createUser :: "nat \<Rightarrow> nat \<Rightarrow> string \<Rightarrow> identity outcome \<Rightarrow> session \<Rightarrow> session" where
  "createUser now_email now_id now_iso post_res s =
     (let userData_name = ''Research User'';
          userData_email = ''user_'' @ toString now_email @ ''@example.com'';
          s1 = axios (PostUsers userData_name userData_email) post_res s
      in case post_res of
           Ok data \<Rightarrow>
             toast_success ''Welcome to Smart Research Assistant!''
               (setItem data (s1\<lparr>currentUser := Some data\<rparr>))
         | Unreachable \<Rightarrow>
             (let localUser =
                    \<lparr>uid = ''local-'' @ toString now_id, uname = userData_name,
                     uemail = userData_email, credits = Some 100, created_at = now_iso\<rparr>
              in toast_success ''Running in offline mode: local user created''
                   (setItem localUser
                     ((console_warn ''Backend unreachable, created local fallback user'' s1)
                        \<lparr>currentUser := Some localUser\<rparr>)))
         | Rejected d \<Rightarrow> s1\<lparr>showAuth := True\<rparr>)"

text \<open>\<open>get_res\<close> is how \<^verbatim>\<open>axios.get(`users/${user.id}`)\<close> ends, when it is called.\<close>

definition checkAuthStatus ::
  "nat \<Rightarrow> nat \<Rightarrow> string \<Rightarrow> identity outcome \<Rightarrow> identity outcome \<Rightarrow> session \<Rightarrow> session" where
  "checkAuthStatus now_email now_id now_iso get_res post_res s =
     (case localStorage s of
        None \<Rightarrow> createUser now_email now_id now_iso post_res s
      | Some Malformed \<Rightarrow> (console_error ''Auth check failed:'' s)\<lparr>showAuth := True\<rparr>
      | Some (Json user) \<Rightarrow>
          (let s1 = axios (GetUsers (uid user)) get_res s
           in case get_res of
                Ok data \<Rightarrow>
                  console_log ''User authenticated successfully'' (s1\<lparr>currentUser := Some data\<rparr>)
              | Unreachable \<Rightarrow>
                  (console_warn ''Backend unreachable, using local cached user'' s1)
                    \<lparr>currentUser := Some user\<rparr>
              | Rejected d \<Rightarrow> createUser now_email now_id now_iso post_res (removeItem s1)))"

text \<open>\<open>api\<close> is the constant \<^verbatim>\<open>API\<close>, computed from the environment when the module loads.\<close>

definition handleAuthSubmit :: "string \<Rightarrow> identity outcome \<Rightarrow> session \<Rightarrow> session" where
  "handleAuthSubmit api res s =
     (let f = authForm s in
      if authMode s = ''signup'' \<and> (form_name f = [] \<or> form_email f = [] \<or> form_password f = [])
      then toast_error ''Please fill in all fields'' s
      else if authMode s \<noteq> ''signup'' \<and> (form_email f = [] \<or> form_password f = [])
      then toast_error ''Please enter email and password'' s
      else
        (let s1 = (if authMode s = ''signup''
                   then axios (PostAuthSignup (form_name f) (form_email f) (form_password f))
                          res s
                   else axios (PostAuthLogin (form_email f) (form_password f)) res s)
         in case res of
              Ok user \<Rightarrow>
                (setItem user
                  ((toast_success
                      (if authMode s = ''signup'' then ''Account created successfully!''
                       else ''Welcome back!'') s1)
                     \<lparr>currentUser := Some user\<rparr>))
                  \<lparr>showAuth := False,
                   authForm := \<lparr>form_name = [], form_email = [], form_password = []\<rparr>\<rparr>
            | Unreachable \<Rightarrow>
                toast_error
                  (''Network error: could not reach backend at '' @ api @
                   ''. Check REACT_APP_BACKEND_URL, CORS_ORIGINS, and that the backend is running.'')
                  (console_error ''Auth failed:'' s1)
            | Rejected d \<Rightarrow>
                toast_error
                  (case d of
                     Some detail \<Rightarrow>
                       if detail \<noteq> [] then detail
                       else if authMode s = ''signup'' then ''Signup failed'' else ''Login failed''
                   | None \<Rightarrow> if authMode s = ''signup'' then ''Signup failed'' else ''Login failed'')
                  (console_error ''Auth failed:'' s1)))"

definition handleLogout :: "session \<Rightarrow> session" where
  "handleLogout s =
     toast_success ''Logged out successfully''
       ((removeItem (s\<lparr>currentUser := None, userStats := None, reports := [],
                       uploadedFiles := []\<rparr>))
          \<lparr>showAuth := True\<rparr>)"

section \<open>Account state aggregator\<close>

text \<open>
  The object both fallbacks of \<^verbatim>\<open>fetchUserStats\<close> build:
  \<^verbatim>\<open>credits_remaining: currentUser.credits ?? 100\<close> and three zero counters.
\<close>

definition defaultStats :: "identity \<Rightarrow> user_stats" where
  "defaultStats u =
     \<lparr>credits_remaining = (case credits u of Some c \<Rightarrow> c | None \<Rightarrow> 100),
      total_questions_asked = 0, reports_generated = 0, credits_used = 0\<rparr>"

text \<open>
  \<^verbatim>\<open>fetchUserStats\<close> and \<^verbatim>\<open>fetchUserReports\<close> read the \<^verbatim>\<open>currentUser\<close> of the
  render that created them, not the session of the moment at which their call returns:
  that user is their first argument. \<open>res\<close> is how
  \<^verbatim>\<open>axios.get(`stats/${currentUser.id}`)\<close> ends, when it is called. With no user,
  reading \<^verbatim>\<open>currentUser.id\<close> throws a TypeError before any call; the \<^verbatim>\<open>catch\<close> finds
  it is no network error and logs it.
\<close>

definition fetchUserStats :: "identity option \<Rightarrow> user_stats outcome \<Rightarrow> session \<Rightarrow> session" where
  "fetchUserStats closure_user res s =
     (case closure_user of
        None \<Rightarrow> console_error ''Failed to fetch user stats:'' s
      | Some u \<Rightarrow>
          if startsWith (uid u) ''local-'' then s\<lparr>userStats := Some (defaultStats u)\<rparr>
          else
            (let s1 = axios (GetStats (uid u)) res s
             in case res of
                  Ok data \<Rightarrow> s1\<lparr>userStats := Some data\<rparr>
                | Unreachable \<Rightarrow> s1\<lparr>userStats := Some (defaultStats u)\<rparr>
                | Rejected d \<Rightarrow> console_error ''Failed to fetch user stats:'' s1))"

definition fetchUserReports ::
  "identity option \<Rightarrow> report_item list outcome \<Rightarrow> session \<Rightarrow> session" where
  "fetchUserReports closure_user res s =
     (case closure_user of
        None \<Rightarrow> console_error ''Failed to fetch reports:'' s
      | Some u \<Rightarrow>
          if startsWith (uid u) ''local-'' then s\<lparr>reports := []\<rparr>
          else
            (let s1 = axios (GetReports (uid u)) res s
             in case res of
                  Ok data \<Rightarrow> s1\<lparr>reports := data\<rparr>
                | Unreachable \<Rightarrow> s1\<lparr>reports := []\<rparr>
                | Rejected d \<Rightarrow> console_error ''Failed to fetch reports:'' s1))"

section \<open>File upload handling\<close>

text \<open>
  One selected file with everything its upload reads: its name and size, how
  \<^verbatim>\<open>axios.post(`upload`, formData)\<close> ends (\<^verbatim>\<open>file_id\<close> and \<^verbatim>\<open>filename\<close> of the
  response), and the \<^verbatim>\<open>Date.now()\<close> and the random suffix of a local id.
\<close>

record selected_file =
  sel_name :: string
  sel_size :: nat
  sel_result :: "(string \<times> string) outcome"
  sel_now :: nat
  sel_random :: string

fun handleFileUpload :: "selected_file list \<Rightarrow> session \<Rightarrow> session" where
  "handleFileUpload [] s = s"
| "handleFileUpload (f # fs) s =
     (let s1 = axios (PostUpload (sel_name f)) (sel_result f) s
      in handleFileUpload fs
           (case sel_result f of
              Ok (fid, filename) \<Rightarrow>
                toast_success (''File \"'' @ sel_name f @ ''\" uploaded successfully!'')
                  (s1\<lparr>uploadedFiles := uploadedFiles s1 @
                        [\<lparr>file_id = fid, file_name = filename, file_size = sel_size f\<rparr>]\<rparr>)
            | Unreachable \<Rightarrow>
                toast_success (''Added \"'' @ sel_name f @ ''\" (local only)'')
                  (s1\<lparr>uploadedFiles := uploadedFiles s1 @
                        [\<lparr>file_id = ''local-file-'' @ toString (sel_now f) @ ''-'' @ sel_random f,
                          file_name = sel_name f, file_size = sel_size f\<rparr>]\<rparr>)
            | Rejected d \<Rightarrow>
                toast_error (''Failed to upload \"'' @ sel_name f @ ''\"'')
                  (console_error ''File upload failed:'' s1)))"

definition removeFile :: "string \<Rightarrow> session \<Rightarrow> session" where
  "removeFile fileId s = s\<lparr>uploadedFiles := filter (\<lambda>f. file_id f \<noteq> fileId) (uploadedFiles s)\<rparr>"

section \<open>Request lifecycle manager\<close>

subsection \<open>The local report\<close>

definition nl :: string where
  "nl = [CHR 0x0A]"

text \<open>The template literal \<^verbatim>\<open>reportText\<close> of line 407.\<close>

definition reportText :: "string \<Rightarrow> string list \<Rightarrow> string" where
  "reportText q sources =
     ''Key Findings'' @ nl @ ''- Offline mode: generated a local report.'' @ nl @
     ''- Your question: '' @ q @ nl @ nl @
     ''Supporting Evidence'' @ nl @
     ''- Files provided: '' @ (if sources \<noteq> [] then join '', '' sources else ''none'') @ nl @ nl @
     ''Actionable Recommendations'' @ nl @
     ''- Connect the backend to generate AI-powered reports.'' @ nl @ nl @
     ''Sources Referenced'' @ nl @
     ''- '' @ (if sources \<noteq> [] then join (nl @ ''- '') sources else ''No files uploaded'')"

text \<open>
  \<^verbatim>\<open>localReportItem\<close>; \<open>now_q\<close> and \<open>now_r\<close> are the readings of \<^verbatim>\<open>Date.now()\<close> for
  \<^verbatim>\<open>qId\<close> and \<^verbatim>\<open>rId\<close>, \<open>now\<close> is \<^verbatim>\<open>new Date().toISOString()\<close>.
\<close>

definition localReportItem ::
  "nat \<Rightarrow> nat \<Rightarrow> string \<Rightarrow> identity \<Rightarrow> string \<Rightarrow> uploaded_file list \<Rightarrow> report_item" where
  "localReportItem now_q now_r now u q fs =
     (let qId = ''local-q-'' @ toString now_q;
          rId = ''local-r-'' @ toString now_r;
          sources = map file_name fs
      in \<lparr>item_report =
             \<lparr>report_id = rId, report_question_id = qId, report_user_id = uid u,
              report_text = reportText q sources,
              citations = map (\<lambda>s. ''Source: '' @ s) sources,
              sources_used = sources, live_data_included = False,
              report_created_at = now\<rparr>,
           item_question =
             \<lparr>question_id = qId, question_user_id = uid u, question_text = q,
              files = map file_id fs, status = ''completed'',
              question_created_at = now\<rparr>\<rparr>)"

text \<open>
  The updater given to \<^verbatim>\<open>setUserStats\<close> at lines 436 to 444; each sum and the
  difference are doubles.
\<close>

definition debit :: "identity \<Rightarrow> user_stats option \<Rightarrow> user_stats" where
  "debit u prev =
     (let c = toDouble
                ((case prev of
                    Some p \<Rightarrow> credits_remaining p
                  | None \<Rightarrow> (case credits u of Some c \<Rightarrow> c | None \<Rightarrow> 100)) - 1)
      in \<lparr>credits_remaining = max 0 c,
          total_questions_asked =
            toDouble ((case prev of Some p \<Rightarrow> total_questions_asked p | None \<Rightarrow> 0) + 1),
          reports_generated =
            toDouble ((case prev of Some p \<Rightarrow> reports_generated p | None \<Rightarrow> 0) + 1),
          credits_used =
            toDouble ((case prev of Some p \<Rightarrow> credits_used p | None \<Rightarrow> 0) + 1)\<rparr>)"

subsection \<open>Submission\<close>

text \<open>
  The \<^verbatim>\<open>catch\<close> block of \<^verbatim>\<open>submitResearchQuestion\<close> (lines 397 to 452), entered with
  the failure \<open>res\<close> of \<^verbatim>\<open>axios.post(`research`, formData)\<close> and the current user \<open>u\<close>.
\<close>

definition submitFailed ::
  "nat \<Rightarrow> nat \<Rightarrow> string \<Rightarrow> string outcome \<Rightarrow> identity \<Rightarrow> session \<Rightarrow> session" where
  "submitFailed now_q now_r now res u s =
     (let s1 = console_error ''Research submission failed:'' s
      in if isNetworkError res \<or> startsWith (uid u) ''local-''
         then toast_success ''Local report generated (offline mode)''
                (s1\<lparr>reports := localReportItem now_q now_r now u (question s1) (uploadedFiles s1)
                         # reports s1,
                     isProcessing := False,
                     activeTab := ''reports'',
                     question := [],
                     uploadedFiles := [],
                     userStats := Some (debit u (userStats s1))\<rparr>)
         else (toast_error ''Failed to submit research question'' s1)\<lparr>isProcessing := False\<rparr>)"

text \<open>
  The result is the id of the question whose polling starts, if any, and the new state.
  \<^verbatim>\<open>pollForResults(questionId)\<close> starts a loop that runs on its own from then on: it is
  recorded with the user of this call.
\<close>

definition submitResearchQuestion ::
  "nat \<Rightarrow> nat \<Rightarrow> string \<Rightarrow> string outcome \<Rightarrow> session \<Rightarrow> string option \<times> session" where
  "submitResearchQuestion now_q now_r now res s =
     (if trim (question s) = [] then (None, toast_error ''Please enter a research question'' s)
      else case currentUser s of
        None \<Rightarrow> (None, toast_error ''Please log in to submit questions'' s)
      | Some u \<Rightarrow>
          if (case userStats s of Some st \<Rightarrow> credits_remaining st < 1 | None \<Rightarrow> False)
          then (None, toast_error ''Insufficient credits. You need 1 credit to ask a question.'' s)
          else
            (let s1 = axios (PostResearch (uid u) (question s) (map file_id (uploadedFiles s)))
                        res (s\<lparr>isProcessing := True\<rparr>)
             in case res of
                  Ok questionId \<Rightarrow>
                    (Some questionId,
                     (toast_success ''Research question submitted! Processing...'' s1)
                       \<lparr>polling := polling s1 @ [(questionId, u)],
                        question := [], uploadedFiles := []\<rparr>)
                | Unreachable \<Rightarrow> (None, submitFailed now_q now_r now res u s1)
                | Rejected d \<Rightarrow> (None, submitFailed now_q now_r now res u s1)))"

subsection \<open>Polling\<close>

definition maxAttempts :: nat where
  "maxAttempts = 30"

text \<open>
  How a polling loop stands: one of the four ways \<^verbatim>\<open>poll\<close> stops rescheduling itself,
  or still waiting for the response to a request it has sent.
\<close>

datatype poll_state = Completed | Failed | TimedOut | StatusError | Waiting

text \<open>
  \<^verbatim>\<open>poll\<close> with the counter \<^verbatim>\<open>attempts\<close> of the closure and with \<open>u\<close>, the
  \<^verbatim>\<open>currentUser\<close> of the render that started the loop: the refreshes it calls are the
  closures of that render. The list holds how the successive calls
  \<^verbatim>\<open>axios.get(`research/${questionId}`)\<close> end (\<^verbatim>\<open>response.data.status\<close> on success),
  \<open>stats_res\<close> and \<open>reports_res\<close> how the two refreshes after a completed status end.
  Each \<^verbatim>\<open>setTimeout(poll, 1000)\<close> is one recursive call. When the list is used up the
  next request has been sent and has no response yet.
\<close>

fun poll ::
  "identity \<Rightarrow> string \<Rightarrow> nat \<Rightarrow> string outcome list \<Rightarrow> user_stats outcome \<Rightarrow>
   report_item list outcome \<Rightarrow> session \<Rightarrow> poll_state \<times> session" where
  "poll u questionId attempts [] stats_res reports_res s =
     (Waiting, send (GetResearch questionId) s)"
| "poll u questionId attempts (r # rs) stats_res reports_res s =
     (let s1 = axios (GetResearch questionId) r s
      in case r of
           Ok st \<Rightarrow>
             if st = ''completed''
             then (Completed,
                   (fetchUserReports (Some u) reports_res
                     (fetchUserStats (Some u) stats_res
                       (toast_success ''Research report generated!''
                         (s1\<lparr>isProcessing := False\<rparr>))))
                     \<lparr>activeTab := ''reports''\<rparr>)
             else if st = ''failed''
             then (Failed, toast_error ''Research processing failed'' (s1\<lparr>isProcessing := False\<rparr>))
             else if attempts < maxAttempts
             then poll u questionId (attempts + 1) rs stats_res reports_res s1
             else (TimedOut,
                   toast_error ''Research processing timed out'' (s1\<lparr>isProcessing := False\<rparr>))
         | Unreachable \<Rightarrow>
             if attempts < maxAttempts
             then poll u questionId (attempts + 1) rs stats_res reports_res s1
             else (StatusError,
                   toast_error ''Error checking research status'' (s1\<lparr>isProcessing := False\<rparr>))
         | Rejected d \<Rightarrow>
             (StatusError,
              toast_error ''Error checking research status'' (s1\<lparr>isProcessing := False\<rparr>)))"

definition pollForResults ::
  "identity \<Rightarrow> string \<Rightarrow> string outcome list \<Rightarrow> user_stats outcome \<Rightarrow>
   report_item list outcome \<Rightarrow> session \<Rightarrow> poll_state \<times> session" where
  "pollForResults u questionId rs stats_res reports_res s =
     poll u questionId 0 rs stats_res reports_res s"

section \<open>Sessions\<close>

text \<open>
  Whatever can happen to a session: the handlers above with the inputs they read, the
  two setters the form calls directly, the effect on \<^verbatim>\<open>currentUser\<close>
  (\<^verbatim>\<open>if (currentUser) { fetchUserStats(); fetchUserReports(); }\<close>, one event for each
  of its two calls), and the run of a polling loop that was started. A handler reads the
  session at the moment of the event and its call is answered within the event; a
  polling loop, which lives for seconds, is run as one later event, its first request
  included, on the user of the submission that started it, whatever has happened to the
  session since.
\<close>

datatype event =
    CheckAuthStatus nat nat string "identity outcome" "identity outcome"
  | HandleAuthSubmit string "identity outcome"
  | SetAuthMode string
  | SetAuthForm auth_form
  | HandleLogout
  | FetchUserStats "user_stats outcome"
  | FetchUserReports "report_item list outcome"
  | HandleFileUpload "selected_file list"
  | RemoveFile string
  | SetQuestion string
  | SetActiveTab string
  | SubmitResearchQuestion nat nat string "string outcome"
  | PollForResults nat "string outcome list" "user_stats outcome" "report_item list outcome"

text \<open>The \<open>k\<close>-th polling loop not yet run, taken off the list.\<close>

definition runPolling ::
  "nat \<Rightarrow> string outcome list \<Rightarrow> user_stats outcome \<Rightarrow> report_item list outcome \<Rightarrow>
   session \<Rightarrow> session" where
  "runPolling k rs sr rr s =
     (if k < length (polling s)
      then snd (pollForResults (snd (polling s ! k)) (fst (polling s ! k)) rs sr rr
                  (s\<lparr>polling := take k (polling s) @ drop (Suc k) (polling s)\<rparr>))
      else s)"

fun step :: "session \<Rightarrow> event \<Rightarrow> session" where
  "step s (CheckAuthStatus e i n g p) = checkAuthStatus e i n g p s"
| "step s (HandleAuthSubmit api r) = handleAuthSubmit api r s"
| "step s (SetAuthMode m) = s\<lparr>authMode := m\<rparr>"
| "step s (SetAuthForm f) = s\<lparr>authForm := f\<rparr>"
| "step s HandleLogout = handleLogout s"
| "step s (FetchUserStats r) =
     (if currentUser s \<noteq> None then fetchUserStats (currentUser s) r s else s)"
| "step s (FetchUserReports r) =
     (if currentUser s \<noteq> None then fetchUserReports (currentUser s) r s else s)"
| "step s (HandleFileUpload fs) = handleFileUpload fs s"
| "step s (RemoveFile f) = removeFile f s"
| "step s (SetQuestion q) = s\<lparr>question := q\<rparr>"
| "step s (SetActiveTab t) = s\<lparr>activeTab := t\<rparr>"
| "step s (SubmitResearchQuestion q r n res) = snd (submitResearchQuestion q r n res s)"
| "step s (PollForResults k rs sr rr) = runPolling k rs sr rr s"

definition run :: "session \<Rightarrow> event list \<Rightarrow> session" where
  "run s es = foldl step s es"

section \<open>Example sessions\<close>

text \<open>Concrete users, files and states on which the theorems below are instantiated.\<close>

definition alice :: identity where
  "alice = \<lparr>uid = ''u-7'', uname = ''Alice'', uemail = ''alice@example.com'',
            credits = Some 100, created_at = ''2025-01-01T00:00:00.000Z''\<rparr>"

definition alice_refreshed :: identity where
  "alice_refreshed = alice\<lparr>credits := Some 70\<rparr>"

definition offline_user :: identity where
  "offline_user = \<lparr>uid = ''local-42'', uname = ''Research User'',
                   uemail = ''user_41@example.com'', credits = Some 100,
                   created_at = ''2025-01-01T00:00:00.000Z''\<rparr>"

text \<open>A user whose record says there is no credit.\<close>

definition penniless :: identity where
  "penniless = alice\<lparr>credits := Some 0\<rparr>"

definition stats50 :: user_stats where
  "stats50 = \<lparr>credits_remaining = 50, total_questions_asked = 50, reports_generated = 50,
              credits_used = 50\<rparr>"

definition paper :: uploaded_file where
  "paper = \<lparr>file_id = ''f-1'', file_name = ''paper.pdf'', file_size = 2048\<rparr>"

text \<open>A verified remote user with 50 credits left, and a local user before any stats.\<close>

definition online :: session where
  "online = (initial (Some (Json alice)))\<lparr>currentUser := Some alice, userStats := Some stats50\<rparr>"

definition offline :: session where
  "offline = (initial (Some (Json offline_user)))\<lparr>currentUser := Some offline_user\<rparr>"

text \<open>The form filled in: a question and one pending file.\<close>

definition asking :: "session \<Rightarrow> session" where
  "asking s = s\<lparr>question := ''why?'', uploadedFiles := [paper]\<rparr>"

definition local_item :: report_item where
  "local_item = localReportItem 41 42 ''2025-01-01T00:00:00.000Z'' alice ''why?'' [paper]"

text \<open>
  A session in which every outbound call fails as Unreachable: start-up with nothing cached,
  the two refreshes that follow the new user, then \<open>k\<close> rounds of typing a question and
  submitting it.
\<close>

definition startup :: "event list" where
  "startup =
     [CheckAuthStatus 41 42 ''2025-01-01T00:00:00.000Z'' Unreachable Unreachable,
      FetchUserStats Unreachable, FetchUserReports Unreachable]"

definition ask :: "event list" where
  "ask = [SetQuestion ''why?'', SubmitResearchQuestion 41 42 ''2025-01-01T00:00:00.000Z'' Unreachable]"

primrec rounds :: "nat \<Rightarrow> event list" where
  "rounds 0 = []"
| "rounds (Suc k) = rounds k @ ask"

section \<open>Notions used in the statements\<close>

text \<open>
  A poll result after which \<^verbatim>\<open>poll\<close> reschedules itself while attempts remain: a status
  other than \<^verbatim>\<open>completed\<close> and \<^verbatim>\<open>failed\<close>, or no response at all.
\<close>

definition notYet :: "string outcome \<Rightarrow> bool" where
  "notYet r = (case r of Ok st \<Rightarrow> st \<noteq> ''completed'' \<and> st \<noteq> ''failed''
                | Unreachable \<Rightarrow> True | Rejected d \<Rightarrow> False)"

text \<open>The session after the status requests for question \<open>q\<close> that a list of results answers.\<close>

definition answered :: "string \<Rightarrow> string outcome list \<Rightarrow> session \<Rightarrow> session" where
  "answered q rs s = foldl (\<lambda>t r. axios (GetResearch q) r t) s rs"

text \<open>
  No negative credit anywhere a credit count is kept or will be read: in the stats, in
  the current user, in the cached user and in the users of the polling loops not yet
  run, from which the fallbacks of \<open>fetchUserStats\<close> and \<open>checkAuthStatus\<close> read.
\<close>

definition creditsOk :: "identity \<Rightarrow> bool" where
  "creditsOk u = (case credits u of Some c \<Rightarrow> 0 \<le> c | None \<Rightarrow> True)"

fun statsNonNegative :: "user_stats option \<Rightarrow> bool" where
  "statsNonNegative None = True"
| "statsNonNegative (Some st) = (0 \<le> credits_remaining st)"

fun userNonNegative :: "identity option \<Rightarrow> bool" where
  "userNonNegative None = True"
| "userNonNegative (Some u) = creditsOk u"

fun storedNonNegative :: "stored option \<Rightarrow> bool" where
  "storedNonNegative None = True"
| "storedNonNegative (Some Malformed) = True"
| "storedNonNegative (Some (Json u)) = creditsOk u"

definition nonNegative :: "session \<Rightarrow> bool" where
  "nonNegative s =
     (statsNonNegative (userStats s) \<and> userNonNegative (currentUser s)
      \<and> storedNonNegative (localStorage s)
      \<and> list_all (\<lambda>p. creditsOk (snd p)) (polling s))"

text \<open>The backend sends no negative credit count, in a user or in stats.\<close>

definition userOk :: "identity outcome \<Rightarrow> bool" where
  "userOk r = (case r of Ok u \<Rightarrow> creditsOk u | Unreachable \<Rightarrow> True | Rejected d \<Rightarrow> True)"

definition statsOk :: "user_stats outcome \<Rightarrow> bool" where
  "statsOk r =
     (case r of Ok st \<Rightarrow> 0 \<le> credits_remaining st | Unreachable \<Rightarrow> True | Rejected d \<Rightarrow> True)"

fun backendOk :: "event \<Rightarrow> bool" where
  "backendOk (CheckAuthStatus e i n g p) = (userOk g \<and> userOk p)"
| "backendOk (HandleAuthSubmit api r) = userOk r"
| "backendOk (FetchUserStats r) = statsOk r"
| "backendOk (PollForResults k rs sr rr) = statsOk sr"
| "backendOk _ = True"

section \<open>Auxiliary facts\<close>

lemmas effect_defs = send_def interceptor_def axios_def toast_success_def toast_error_def
  console_log_def console_warn_def console_error_def setItem_def removeItem_def

lemma toString_small: "toString 41 = ''41''" "toString 42 = ''42''"
  by (simp_all add: toString.simps)

lemma trim_examples: "trim ''why?'' = ''why?''" "trim ''  '' = []"
  by (simp_all add: trim_def isWhiteSpace_def)

lemma not_local_alice: "\<not> startsWith (uid alice) ''local-''"
  by (simp add: alice_def startsWith_def)

lemma local_offline_user: "startsWith (uid offline_user) ''local-''"
  by (simp add: offline_user_def startsWith_def)

lemma join_concat: "join sep (x # xs) = x @ concat (map (\<lambda>y. sep @ y) xs)"
  by (induction xs arbitrary: x) simp_all

subsection \<open>Doubles\<close>

lemma bitLength_le: "n < 2 ^ k \<Longrightarrow> bitLength n \<le> k"
proof (induction k arbitrary: n)
  case 0
  then show ?case by (simp add: bitLength.simps)
next
  case (Suc k)
  show ?case
  proof (cases "n = 0")
    case True
    then show ?thesis by (simp add: bitLength.simps)
  next
    case False
    have "n div 2 < 2 ^ k"
      using Suc.prems by simp
    then have "bitLength (n div 2) \<le> k"
      by (rule Suc.IH)
    then show ?thesis
      using False by (subst bitLength.simps) simp
  qed
qed

text \<open>A safe integer is a double: rounding leaves it as it is.\<close>

lemma toDouble_safe: "isSafeInteger x \<Longrightarrow> toDouble x = x"
proof -
  assume "isSafeInteger x"
  then have "nat \<bar>x\<bar> < 2 ^ 53"
    by (simp add: isSafeInteger_def nat_less_iff)
  then have "bitLength (nat \<bar>x\<bar>) - 53 = 0"
    using bitLength_le [of "nat \<bar>x\<bar>" 53] by simp
  then show ?thesis
    by (simp add: toDouble_def Let_def mult_sgn_abs)
qed

lemma toDouble_nonNegative: "0 \<le> x \<Longrightarrow> 0 \<le> toDouble x"
  by (simp add: toDouble_def Let_def sgn_if)

lemma isSafeInteger_pred: "isSafeInteger x \<Longrightarrow> 1 \<le> x \<Longrightarrow> isSafeInteger (x - 1)"
  by (simp add: isSafeInteger_def)

lemma isSafeInteger_small: "isSafeInteger 0" "isSafeInteger 1" "isSafeInteger 100"
  by (simp_all add: isSafeInteger_def)

subsection \<open>Submission\<close>

text \<open>
  A submission that passes the three checks and whose call fails enters the
  \<^verbatim>\<open>catch\<close> block with the request sent, the failure logged by the interceptor and
  \<^verbatim>\<open>isProcessing\<close> set.
\<close>

lemma submit_enters_catch:
  assumes "trim (question s) \<noteq> []"
    and "currentUser s = Some u"
    and "case userStats s of Some st \<Rightarrow> 1 \<le> credits_remaining st | None \<Rightarrow> True"
    and "res = Unreachable \<or> res = Rejected d"
  shows "submitResearchQuestion nq nr now res s
       = (None, submitFailed nq nr now res u
                  (axios (PostResearch (uid u) (question s) (map file_id (uploadedFiles s))) res
                     (s\<lparr>isProcessing := True\<rparr>)))"
proof -
  have guard: "\<not> (case userStats s of Some st \<Rightarrow> credits_remaining st < 1 | None \<Rightarrow> False)"
    using assms(3) by (simp split: option.splits)
  show ?thesis
    using assms(1,2,4) guard by (auto simp add: submitResearchQuestion_def Let_def)
qed

lemma submit_fallback:
  assumes "trim (question s) \<noteq> []"
    and "currentUser s = Some u"
    and "case userStats s of Some st \<Rightarrow> 1 \<le> credits_remaining st | None \<Rightarrow> True"
    and "res = Unreachable \<or> (res = Rejected d \<and> startsWith (uid u) ''local-'')"
  shows "submitResearchQuestion nq nr now res s
       = (None,
          s\<lparr>isProcessing := False,
            requests := requests s @
              [PostResearch (uid u) (question s) (map file_id (uploadedFiles s))],
            console_out := console_out s @
              [ConsoleError ''Axios error:'', ConsoleError ''Research submission failed:''],
            reports := localReportItem nq nr now u (question s) (uploadedFiles s) # reports s,
            activeTab := ''reports'',
            question := [],
            uploadedFiles := [],
            userStats := Some (debit u (userStats s)),
            toasts := toasts s @ [ToastSuccess ''Local report generated (offline mode)'']\<rparr>)"
proof -
  have failed: "res = Unreachable \<or> res = Rejected d"
    using assms(4) by blast
  have fallback: "isNetworkError res \<or> startsWith (uid u) ''local-''"
    using assms(4) by (auto simp add: isNetworkError_def)
  show ?thesis
    unfolding submit_enters_catch [OF assms(1,2,3) failed]
    using fallback failed by (auto simp add: submitFailed_def Let_def effect_defs)
qed

lemma submit_refused:
  assumes "trim (question s) \<noteq> []" and "currentUser s = Some u"
    and "userStats s = Some st" and "credits_remaining st < 1"
  shows "submitResearchQuestion nq nr now res s
       = (None, s\<lparr>toasts := toasts s @
            [ToastError ''Insufficient credits. You need 1 credit to ask a question.'']\<rparr>)"
  using assms by (simp add: submitResearchQuestion_def toast_error_def)

lemma submit_accepted:
  assumes "trim (question s) \<noteq> []" and "currentUser s = Some u"
    and "case userStats s of Some st \<Rightarrow> 1 \<le> credits_remaining st | None \<Rightarrow> True"
  shows "submitResearchQuestion nq nr now (Ok qid) s
       = (Some qid,
          s\<lparr>isProcessing := True,
            requests := requests s @
              [PostResearch (uid u) (question s) (map file_id (uploadedFiles s))],
            toasts := toasts s @ [ToastSuccess ''Research question submitted! Processing...''],
            polling := polling s @ [(qid, u)],
            question := [],
            uploadedFiles := []\<rparr>)"
proof -
  have guard: "\<not> (case userStats s of Some st \<Rightarrow> credits_remaining st < 1 | None \<Rightarrow> False)"
    using assms(3) by (simp split: option.splits)
  show ?thesis
    using assms(1,2) guard by (simp add: submitResearchQuestion_def Let_def effect_defs)
qed

lemma submit_keeps_stats_without_credit:
  assumes "userStats s = Some st" and "credits_remaining st < 1"
  shows "userStats (snd (submitResearchQuestion nq nr now res s)) = userStats s"
  using assms
  by (simp add: submitResearchQuestion_def effect_defs split: option.split)

lemma submit_accepted_keeps_stats:
  "userStats (snd (submitResearchQuestion nq nr now (Ok qid) s)) = userStats s"
  by (simp add: submitResearchQuestion_def effect_defs Let_def split: option.split)

lemma submit_rejected_keeps_stats:
  assumes "currentUser s = Some u" and "\<not> startsWith (uid u) ''local-''"
  shows "userStats (snd (submitResearchQuestion nq nr now (Rejected d) s)) = userStats s"
  using assms
  by (simp add: submitResearchQuestion_def submitFailed_def Let_def effect_defs isNetworkError_def)

text \<open>The debit on safe integers: the arithmetic is exact.\<close>

lemma debit_known:
  assumes "1 \<le> credits_remaining st" and "isSafeInteger (credits_remaining st)"
    and "isSafeInteger (total_questions_asked st + 1)"
    and "isSafeInteger (reports_generated st + 1)"
    and "isSafeInteger (credits_used st + 1)"
  shows "debit u (Some st)
     = \<lparr>credits_remaining = credits_remaining st - 1,
        total_questions_asked = total_questions_asked st + 1,
        reports_generated = reports_generated st + 1,
        credits_used = credits_used st + 1\<rparr>"
  using assms isSafeInteger_pred [OF assms(2,1)]
  by (simp add: debit_def Let_def toDouble_safe)

lemma debit_unknown:
  assumes "isSafeInteger ((case credits u of Some c \<Rightarrow> c | None \<Rightarrow> 100) - 1)"
  shows "debit u None
     = \<lparr>credits_remaining = max 0 ((case credits u of Some c \<Rightarrow> c | None \<Rightarrow> 100) - 1),
        total_questions_asked = 1, reports_generated = 1, credits_used = 1\<rparr>"
  using assms by (simp add: debit_def Let_def toDouble_safe isSafeInteger_small)

subsection \<open>The session with no backend\<close>

lemma run_append: "run s (es @ fs) = run (run s es) fs"
  by (simp add: run_def)

lemma run_startup:
  "currentUser (run (initial None) startup) = Some offline_user"
  "userStats (run (initial None) startup)
     = Some \<lparr>credits_remaining = 100, total_questions_asked = 0, reports_generated = 0,
             credits_used = 0\<rparr>"
  "reports (run (initial None) startup) = []"
  by (simp_all add: run_def startup_def checkAuthStatus_def createUser_def fetchUserStats_def
      fetchUserReports_def defaultStats_def effect_defs initial_def Let_def startsWith_def
      offline_user_def toString_small)

lemma run_ask:
  assumes "currentUser s = Some offline_user"
    and "userStats s = Some st" and "1 \<le> credits_remaining st"
  shows "currentUser (run s ask) = Some offline_user"
    and "userStats (run s ask) = Some (debit offline_user (Some st))"
    and "length (reports (run s ask)) = Suc (length (reports s))"
proof -
  let ?t = "s\<lparr>question := ''why?''\<rparr>"
  have t: "trim (question ?t) \<noteq> []" "currentUser ?t = Some offline_user"
    "case userStats ?t of Some st \<Rightarrow> 1 \<le> credits_remaining st | None \<Rightarrow> True"
    using assms by (simp_all add: trim_examples)
  have u: "Unreachable = Unreachable
           \<or> ((Unreachable :: string outcome) = Rejected None
              \<and> startsWith (uid offline_user) ''local-'')"
    by simp
  have "run s ask = snd (submitResearchQuestion 41 42 ''2025-01-01T00:00:00.000Z'' Unreachable ?t)"
    by (simp add: run_def ask_def)
  then show "currentUser (run s ask) = Some offline_user"
    and "userStats (run s ask) = Some (debit offline_user (Some st))"
    and "length (reports (run s ask)) = Suc (length (reports s))"
    using assms by (simp_all add: submit_fallback [OF t u])
qed

lemma run_rounds:
  "k \<le> 100 \<Longrightarrow>
   currentUser (run (initial None) (startup @ rounds k)) = Some offline_user
   \<and> userStats (run (initial None) (startup @ rounds k))
       = Some \<lparr>credits_remaining = 100 - int k, total_questions_asked = int k,
               reports_generated = int k, credits_used = int k\<rparr>
   \<and> length (reports (run (initial None) (startup @ rounds k))) = k"
proof (induction k)
  case 0
  then show ?case by (simp add: run_startup)
next
  case (Suc k)
  let ?s = "run (initial None) (startup @ rounds k)"
  let ?st = "\<lparr>credits_remaining = 100 - int k, total_questions_asked = int k,
              reports_generated = int k, credits_used = int k\<rparr>"
  have prev: "currentUser ?s = Some offline_user" "userStats ?s = Some ?st"
    "length (reports ?s) = k"
    using Suc by simp_all
  have credit: "1 \<le> credits_remaining ?st"
    using Suc.prems by simp
  have safe: "isSafeInteger (credits_remaining ?st)"
    "isSafeInteger (total_questions_asked ?st + 1)"
    "isSafeInteger (reports_generated ?st + 1)"
    "isSafeInteger (credits_used ?st + 1)"
    using Suc.prems by (simp_all add: isSafeInteger_def)
  have unfold: "run (initial None) (startup @ rounds (Suc k)) = run ?s ask"
    by (simp add: run_append)
  show ?case
    unfolding unfold
    using run_ask [OF prev(1,2) credit] prev(3)
    by (simp add: debit_known [OF credit safe])
qed

subsection \<open>Polling\<close>

lemma answered_Nil [simp]: "answered q [] s = s"
  by (simp add: answered_def)

lemma answered_Cons: "answered q (r # rs) s = answered q rs (axios (GetResearch q) r s)"
  by (simp add: answered_def)

lemma poll_notYet_step:
  assumes "notYet r" and "a < maxAttempts"
  shows "poll u q a (r # rs) sr rr s = poll u q (Suc a) rs sr rr (axios (GetResearch q) r s)"
  using assms by (cases r) (simp_all add: notYet_def Let_def)

text \<open>
  Results of that kind, as long as their number leaves the counter within
  \<open>maxAttempts\<close>, only advance the counter, one request and one answer each.
\<close>

lemma poll_notYet_prefix:
  "list_all notYet pre \<Longrightarrow> a + length pre \<le> maxAttempts \<Longrightarrow>
   poll u q a (pre @ rs) sr rr s = poll u q (a + length pre) rs sr rr (answered q pre s)"
proof (induction pre arbitrary: a s)
  case Nil
  then show ?case by simp
next
  case (Cons r pre)
  then have "poll u q a ((r # pre) @ rs) sr rr s
           = poll u q (Suc a) (pre @ rs) sr rr (axios (GetResearch q) r s)"
    by (simp add: poll_notYet_step del: poll.simps)
  also have "\<dots> = poll u q (Suc a + length pre) rs sr rr
                     (answered q pre (axios (GetResearch q) r s))"
    using Cons by simp
  finally show ?case by (simp add: answered_Cons)
qed

lemma notYet_replicate:
  "list_all notYet (replicate k (Ok ''processing''))" "list_all notYet (replicate k Unreachable)"
  by (simp_all add: list_all_length notYet_def)

lemma answered_processing:
  "answered q (replicate k (Ok st)) s
     = s\<lparr>requests := requests s @ replicate k (GetResearch q)\<rparr>"
proof (induction k arbitrary: s)
  case 0
  then show ?case by simp
next
  case (Suc k)
  show ?case
    by (simp add: answered_Cons Suc effect_defs replicate_append_same)
qed

lemma answered_unreachable:
  "answered q (replicate k Unreachable) s
     = s\<lparr>requests := requests s @ replicate k (GetResearch q),
         console_out := console_out s @ replicate k (ConsoleError ''Axios error:'')\<rparr>"
proof (induction k arbitrary: s)
  case 0
  then show ?case by simp
next
  case (Suc k)
  show ?case
    by (simp add: answered_Cons Suc effect_defs replicate_append_same)
qed

lemma replicate_snoc: "replicate (Suc k) x = replicate k x @ [x]"
  by (simp add: replicate_append_same)

lemma fetchUserReports_userStats [simp]: "userStats (fetchUserReports cu rr s) = userStats s"
  by (simp add: fetchUserReports_def effect_defs Let_def split: option.split outcome.split)

lemma axios_userStats [simp]: "userStats (axios r res s) = userStats s"
  by (cases res) (simp_all add: effect_defs)


subsection \<open>No negative credit\<close>

lemma nonNegative_frame:
  "userStats t = userStats s \<Longrightarrow> currentUser t = currentUser s \<Longrightarrow>
   localStorage t = localStorage s \<Longrightarrow> polling t = polling s \<Longrightarrow>
   nonNegative t = nonNegative s"
  by (simp add: nonNegative_def)

lemma nonNegative_axios [simp]: "nonNegative (axios r res s) = nonNegative s"
  by (cases res) (simp_all add: nonNegative_def effect_defs)

lemma nonNegative_send [simp]: "nonNegative (send r s) = nonNegative s"
  by (simp add: nonNegative_def send_def)

lemma nonNegative_createUser:
  "nonNegative s \<Longrightarrow> userOk p \<Longrightarrow> nonNegative (createUser e i n p s)"
  by (cases p)
     (simp_all add: nonNegative_def userOk_def creditsOk_def createUser_def effect_defs Let_def)

lemma nonNegative_removeItem: "nonNegative s \<Longrightarrow> nonNegative (removeItem s)"
  by (simp add: nonNegative_def removeItem_def)

lemma nonNegative_checkAuthStatus:
  assumes "nonNegative s" and "userOk g" and "userOk p"
  shows "nonNegative (checkAuthStatus e i n g p s)"
proof (cases "localStorage s")
  case None
  then show ?thesis using assms by (simp add: checkAuthStatus_def nonNegative_createUser)
next
  case (Some v)
  show ?thesis
  proof (cases v)
    case Malformed
    then show ?thesis using Some assms(1)
      by (simp add: checkAuthStatus_def nonNegative_def effect_defs)
  next
    case (Json user)
    have cached: "creditsOk user"
      using Some Json assms(1) by (simp add: nonNegative_def)
    have fresh: "nonNegative (createUser e i n p (removeItem (axios (GetUsers (uid user)) g s)))"
      using assms(1,3) by (simp add: nonNegative_createUser nonNegative_removeItem)
    show ?thesis
      using Some Json assms(1,2) cached fresh
      by (cases g)
         (simp_all add: checkAuthStatus_def Let_def,
          simp_all add: nonNegative_def userOk_def effect_defs)
  qed
qed

lemma nonNegative_handleAuthSubmit:
  assumes "nonNegative s" and "userOk r"
  shows "nonNegative (handleAuthSubmit api r s)"
  using assms
  by (cases r) (simp_all add: nonNegative_def userOk_def handleAuthSubmit_def effect_defs Let_def)

lemma nonNegative_handleLogout: "nonNegative s \<Longrightarrow> nonNegative (handleLogout s)"
  by (simp add: nonNegative_def handleLogout_def effect_defs)

lemma defaultStats_nonNegative: "creditsOk u \<Longrightarrow> 0 \<le> credits_remaining (defaultStats u)"
  by (simp add: creditsOk_def defaultStats_def split: option.split_asm)

lemma nonNegative_fetchUserStats:
  assumes "nonNegative s" and "userNonNegative cu" and "statsOk r"
  shows "nonNegative (fetchUserStats cu r s)"
proof (cases cu)
  case None
  then show ?thesis using assms(1) by (simp add: fetchUserStats_def nonNegative_def effect_defs)
next
  case (Some u)
  then have "0 \<le> credits_remaining (defaultStats u)"
    using assms(2) by (simp add: defaultStats_nonNegative)
  then show ?thesis
    using Some assms(1,3)
    by (cases r) (simp_all add: fetchUserStats_def nonNegative_def statsOk_def effect_defs Let_def)
qed

lemma nonNegative_fetchUserReports: "nonNegative (fetchUserReports cu r s) = nonNegative s"
  by (rule nonNegative_frame)
     (simp_all add: fetchUserReports_def effect_defs Let_def split: option.split outcome.split)

lemma handleFileUpload_frame:
  "userStats (handleFileUpload fs s) = userStats s
   \<and> currentUser (handleFileUpload fs s) = currentUser s
   \<and> localStorage (handleFileUpload fs s) = localStorage s
   \<and> polling (handleFileUpload fs s) = polling s"
  by (induction fs arbitrary: s)
     (simp_all add: effect_defs Let_def split: outcome.split prod.split)

lemma debit_nonNegative: "0 \<le> credits_remaining (debit u prev)"
  by (simp add: debit_def Let_def)

lemma nonNegative_submitFailed:
  "nonNegative s \<Longrightarrow> nonNegative (submitFailed q r n res u s)"
  by (simp add: nonNegative_def submitFailed_def Let_def effect_defs debit_nonNegative)

lemma nonNegative_submit:
  assumes "nonNegative s"
  shows "nonNegative (snd (submitResearchQuestion q r n res s))"
proof (cases "currentUser s")
  case None
  then show ?thesis using assms
    by (simp add: submitResearchQuestion_def nonNegative_def effect_defs)
next
  case (Some u)
  let ?s1 = "axios (PostResearch (uid u) (question s) (map file_id (uploadedFiles s))) res
               (s\<lparr>isProcessing := True\<rparr>)"
  have base: "nonNegative (s\<lparr>isProcessing := True\<rparr>)"
    using assms by (simp add: nonNegative_def)
  then have s1: "nonNegative ?s1"
    by simp
  have user: "creditsOk u"
    using assms Some by (simp add: nonNegative_def)
  have failed: "nonNegative (submitFailed q r n res u ?s1)"
    using s1 by (rule nonNegative_submitFailed)
  have refused: "nonNegative (toast_error m s)" for m
    using assms by (simp add: nonNegative_def effect_defs)
  have accepted: "nonNegative ((toast_success m ?s1)
        \<lparr>polling := polling ?s1 @ [(qid, u)], question := [], uploadedFiles := []\<rparr>)" for m qid
    using s1 user by (simp add: nonNegative_def toast_success_def)
  show ?thesis
    using Some failed refused accepted
    by (cases res) (simp_all add: submitResearchQuestion_def Let_def)
qed

lemma nonNegative_poll:
  "nonNegative s \<Longrightarrow> creditsOk u \<Longrightarrow> statsOk sr \<Longrightarrow>
   nonNegative (snd (poll u q a rs sr rr s))"
proof (induction rs arbitrary: a s)
  case Nil
  then show ?case by simp
next
  case (Cons r rs)
  let ?s1 = "axios (GetResearch q) r s"
  have s1: "nonNegative (axios (GetResearch q) r' s)" for r' :: "string outcome"
    using Cons.prems(1) by simp
  have stopped: "nonNegative (toast_error m ((axios (GetResearch q) r' s)\<lparr>isProcessing := False\<rparr>))"
    for m and r' :: "string outcome"
    using s1 [of r'] by (simp add: nonNegative_def toast_error_def)
  have completed: "nonNegative ((fetchUserReports (Some u) rr (fetchUserStats (Some u) sr
        (toast_success ''Research report generated!''
           ((axios (GetResearch q) r' s)\<lparr>isProcessing := False\<rparr>))))
           \<lparr>activeTab := ''reports''\<rparr>)" for r' :: "string outcome"
  proof -
    have "nonNegative (toast_success ''Research report generated!''
            ((axios (GetResearch q) r' s)\<lparr>isProcessing := False\<rparr>))"
      using s1 [of r'] by (simp add: nonNegative_def toast_success_def)
    then have "nonNegative (fetchUserReports (Some u) rr (fetchUserStats (Some u) sr
        (toast_success ''Research report generated!''
           ((axios (GetResearch q) r' s)\<lparr>isProcessing := False\<rparr>))))"
      using Cons.prems(2,3) by (simp add: nonNegative_fetchUserReports nonNegative_fetchUserStats)
    then show ?thesis by (simp add: nonNegative_def)
  qed
  have again: "nonNegative (snd (poll u q (a + 1) rs sr rr ?s1))"
    using Cons.IH [OF s1 Cons.prems(2,3)] .
  show ?case
    using stopped completed again by (cases r) (simp_all add: Let_def)
qed

lemma nonNegative_runPolling:
  assumes "nonNegative s" and "statsOk sr"
  shows "nonNegative (runPolling k rs sr rr s)"
proof (cases "k < length (polling s)")
  case False
  then show ?thesis using assms(1) by (simp add: runPolling_def)
next
  case True
  let ?t = "s\<lparr>polling := take k (polling s) @ drop (Suc k) (polling s)\<rparr>"
  have all: "list_all (\<lambda>p. creditsOk (snd p)) (polling s)"
    using assms(1) by (simp add: nonNegative_def)
  then have user: "creditsOk (snd (polling s ! k))"
    using True by (simp add: list_all_length)
  have "list_all (\<lambda>p. creditsOk (snd p)) (take k (polling s) @ drop (Suc k) (polling s))"
    using all by (auto simp add: list_all_iff dest: in_set_takeD in_set_dropD)
  then have t: "nonNegative ?t"
    using assms(1) by (simp add: nonNegative_def)
  show ?thesis
    using True nonNegative_poll [OF t user assms(2)]
    by (simp add: runPolling_def pollForResults_def)
qed

lemma nonNegative_step: "nonNegative s \<Longrightarrow> backendOk e \<Longrightarrow> nonNegative (step s e)"
proof (cases e)
  case (HandleFileUpload fs)
  assume "nonNegative s"
  then show ?thesis
    using HandleFileUpload nonNegative_frame [of "handleFileUpload fs s" s]
      handleFileUpload_frame [of fs s]
    by simp
next
  case (FetchUserStats r)
  assume "nonNegative s" and "backendOk e"
  then show ?thesis
    using FetchUserStats nonNegative_fetchUserStats [of s "currentUser s" r]
    by (simp add: nonNegative_def)
qed (simp_all add: nonNegative_checkAuthStatus nonNegative_handleAuthSubmit
      nonNegative_handleLogout nonNegative_fetchUserReports
      nonNegative_submit nonNegative_runPolling,
     simp_all add: nonNegative_def removeFile_def)

lemma nonNegative_run: "nonNegative s \<Longrightarrow> list_all backendOk es \<Longrightarrow> nonNegative (run s es)"
  unfolding run_def
  by (induction es arbitrary: s) (simp_all add: nonNegative_step)

lemma nonNegative_initial: "storedNonNegative st \<Longrightarrow> nonNegative (initial st)"
  by (simp add: nonNegative_def initial_def)

section \<open>Identity resolver: the cached identity\<close>

text \<open>
  C7. When a cached identity exists and verifying it fails as Unreachable, the active
  identity is the cached record as it was read, and local storage is neither written
  nor cleared: its content and the list of writes are what they were.
\<close>

theorem cached_identity_kept_when_unreachable:
  assumes "localStorage s = Some (Json user)"
  shows "currentUser (checkAuthStatus e i n Unreachable p s) = Some user
       \<and> localStorage (checkAuthStatus e i n Unreachable p s) = localStorage s
       \<and> storage_writes (checkAuthStatus e i n Unreachable p s) = storage_writes s
       \<and> showAuth (checkAuthStatus e i n Unreachable p s) = showAuth s"
  using assms by (simp add: checkAuthStatus_def effect_defs)

theorem cached_identity_kept_when_unreachable_witness:
  "currentUser (checkAuthStatus 41 42 ''now'' Unreachable Unreachable
                  (initial (Some (Json alice)))) = Some alice
   \<and> localStorage (checkAuthStatus 41 42 ''now'' Unreachable Unreachable
                      (initial (Some (Json alice)))) = Some (Json alice)
   \<and> storage_writes (checkAuthStatus 41 42 ''now'' Unreachable Unreachable
                        (initial (Some (Json alice)))) = []"
proof -
  have cached: "localStorage (initial (Some (Json alice))) = Some (Json alice)"
    by (simp add: initial_def)
  show ?thesis
    using cached_identity_kept_when_unreachable [OF cached, of 41 42 "''now''" Unreachable]
    by (simp add: initial_def)
qed

section \<open>Identity resolver: the local fallback identity\<close>

text \<open>
  C8. When no valid identity is cached (nothing is stored, or the stored one was
  rejected by the backend) and creating one fails as Unreachable, the active identity
  is a new record whose id is \<open>local-\<close> followed by the clock reading, with 100 credits
  and the current timestamp, and this record is what local storage holds afterwards,
  by the last write.
\<close>

theorem local_identity_created_when_unreachable:
  assumes "localStorage s = None
         \<or> (\<exists>user d. localStorage s = Some (Json user) \<and> get_res = Rejected d)"
  shows "let s' = checkAuthStatus e i n get_res Unreachable s;
             localUser = \<lparr>uid = ''local-'' @ toString i, uname = ''Research User'',
                          uemail = ''user_'' @ toString e @ ''@example.com'',
                          credits = Some 100, created_at = n\<rparr>
         in currentUser s' = Some localUser
          \<and> startsWith (uid localUser) ''local-''
          \<and> localStorage s' = Some (Json localUser)
          \<and> last (storage_writes s') = SetItem localUser
          \<and> showAuth s' = showAuth s"
  using assms
  by (auto simp add: checkAuthStatus_def createUser_def effect_defs startsWith_def Let_def)

theorem local_identity_created_when_unreachable_witness:
  "currentUser (checkAuthStatus 41 42 ''2025-01-01T00:00:00.000Z'' Unreachable Unreachable
                  (initial None)) = Some offline_user
   \<and> localStorage (checkAuthStatus 41 42 ''2025-01-01T00:00:00.000Z'' Unreachable Unreachable
                      (initial None)) = Some (Json offline_user)
   \<and> currentUser (checkAuthStatus 41 42 ''2025-01-01T00:00:00.000Z'' (Rejected None) Unreachable
                    (initial (Some (Json alice)))) = Some offline_user
   \<and> last (storage_writes
             (checkAuthStatus 41 42 ''2025-01-01T00:00:00.000Z'' (Rejected None) Unreachable
                (initial (Some (Json alice))))) = SetItem offline_user"
proof -
  have empty: "localStorage (initial None) = None
       \<or> (\<exists>user d. localStorage (initial None) = Some (Json user) \<and> Unreachable = Rejected d)"
    by (simp add: initial_def)
  have rejected: "localStorage (initial (Some (Json alice))) = None
       \<or> (\<exists>user d. localStorage (initial (Some (Json alice))) = Some (Json user)
                  \<and> Rejected None = Rejected d)"
    by (simp add: initial_def)
  show ?thesis
    using local_identity_created_when_unreachable
            [OF empty, of 41 42 "''2025-01-01T00:00:00.000Z''"]
          local_identity_created_when_unreachable
            [OF rejected, of 41 42 "''2025-01-01T00:00:00.000Z''"]
    by (simp add: Let_def offline_user_def toString_small)
qed

section \<open>Submitting with no backend\<close>

text \<open>
  C1, as the code has it, for a question that is not empty after trimming and an active
  user. First: when the stats are unknown or show at least one credit and the call fails
  as Unreachable, or fails at all while the active user is a local one, the call returns
  no question id and the session gets a report built from the question and the pending
  files. Its text is the fixed template with the offline notice, the question, the file
  names (or \<open>none\<close>), the recommendation to connect the backend and the list of the names
  (or \<open>No files uploaded\<close>); its sources are the file names and its citations those names
  each behind \<open>Source: \<close>; it carries no live data, and its question is marked
  completed. The report is put in front of the collection, the view becomes the reports,
  the question and the pending files are cleared, and the only toast is the success
  notice. Second: when the stats show less than one credit, the submission is refused with
  the credits message before any call, whatever the backend would do. Third: when the
  backend accepts the submission, of a local user too, no report is made: the loop
  polling for the question id is started and the form is cleared.
\<close>

theorem offline_submit_synthesizes_report:
  assumes "trim (question s) \<noteq> []" and "currentUser s = Some u"
  shows "((case userStats s of Some st \<Rightarrow> 1 \<le> credits_remaining st | None \<Rightarrow> True)
          \<and> (res = Unreachable \<or> (res = Rejected d \<and> startsWith (uid u) ''local-''))
          \<longrightarrow>
          (let s' = snd (submitResearchQuestion nq nr now res s);
               names = map file_name (uploadedFiles s);
               item =
                 \<lparr>item_report =
                    \<lparr>report_id = ''local-r-'' @ toString nr,
                     report_question_id = ''local-q-'' @ toString nq,
                     report_user_id = uid u,
                     report_text =
                       ''Key Findings'' @ [CHR 0x0A] @
                       ''- Offline mode: generated a local report.'' @ [CHR 0x0A] @
                       ''- Your question: '' @ question s @ [CHR 0x0A, CHR 0x0A] @
                       ''Supporting Evidence'' @ [CHR 0x0A] @
                       ''- Files provided: '' @
                       (case names of [] \<Rightarrow> ''none''
                        | x # xs \<Rightarrow> x @ concat (map (\<lambda>y. '', '' @ y) xs)) @
                       [CHR 0x0A, CHR 0x0A] @
                       ''Actionable Recommendations'' @ [CHR 0x0A] @
                       ''- Connect the backend to generate AI-powered reports.'' @
                       [CHR 0x0A, CHR 0x0A] @
                       ''Sources Referenced'' @ [CHR 0x0A] @
                       ''- '' @
                       (case names of [] \<Rightarrow> ''No files uploaded''
                        | x # xs \<Rightarrow> x @ concat (map (\<lambda>y. [CHR 0x0A] @ ''- '' @ y) xs)),
                     citations = map (\<lambda>n. ''Source: '' @ n) names,
                     sources_used = names,
                     live_data_included = False,
                     report_created_at = now\<rparr>,
                  item_question =
                    \<lparr>question_id = ''local-q-'' @ toString nq,
                     question_user_id = uid u,
                     question_text = question s,
                     files = map file_id (uploadedFiles s),
                     status = ''completed'',
                     question_created_at = now\<rparr>\<rparr>
           in fst (submitResearchQuestion nq nr now res s) = None
            \<and> reports s' = item # reports s
            \<and> activeTab s' = ''reports''
            \<and> question s' = []
            \<and> uploadedFiles s' = []
            \<and> isProcessing s' = False
            \<and> toasts s' = toasts s @ [ToastSuccess ''Local report generated (offline mode)'']))
       \<and> ((\<exists>st. userStats s = Some st \<and> credits_remaining st < 1)
          \<longrightarrow>
          submitResearchQuestion nq nr now res s
            = (None,
               s\<lparr>toasts := toasts s @
                    [ToastError ''Insufficient credits. You need 1 credit to ask a question.'']\<rparr>))
       \<and> ((case userStats s of Some st \<Rightarrow> 1 \<le> credits_remaining st | None \<Rightarrow> True)
          \<longrightarrow>
          (let s' = snd (submitResearchQuestion nq nr now (Ok qid) s)
           in fst (submitResearchQuestion nq nr now (Ok qid) s) = Some qid
            \<and> reports s' = reports s
            \<and> polling s' = polling s @ [(qid, u)]
            \<and> activeTab s' = activeTab s
            \<and> question s' = []
            \<and> uploadedFiles s' = []
            \<and> isProcessing s' = True
            \<and> toasts s' = toasts s @
                 [ToastSuccess ''Research question submitted! Processing...'']))"
proof -
  have body: "reportText q names
      = ''Key Findings'' @ [CHR 0x0A] @
        ''- Offline mode: generated a local report.'' @ [CHR 0x0A] @
        ''- Your question: '' @ q @ [CHR 0x0A, CHR 0x0A] @
        ''Supporting Evidence'' @ [CHR 0x0A] @
        ''- Files provided: '' @
        (case names of [] \<Rightarrow> ''none'' | x # xs \<Rightarrow> x @ concat (map (\<lambda>y. '', '' @ y) xs)) @
        [CHR 0x0A, CHR 0x0A] @
        ''Actionable Recommendations'' @ [CHR 0x0A] @
        ''- Connect the backend to generate AI-powered reports.'' @ [CHR 0x0A, CHR 0x0A] @
        ''Sources Referenced'' @ [CHR 0x0A] @
        ''- '' @
        (case names of [] \<Rightarrow> ''No files uploaded''
         | x # xs \<Rightarrow> x @ concat (map (\<lambda>y. [CHR 0x0A] @ ''- '' @ y) xs))" for q names
  proof -
    have prefix: "(@) (c # cs) = (\<lambda>y. c # (cs @ y))" "(@) [] = (\<lambda>y. y)"
      for c :: char and cs
      by (simp_all add: fun_eq_iff)
    show ?thesis
      by (cases names) (simp_all add: reportText_def nl_def join_concat prefix)
  qed
  show ?thesis
    apply (intro conjI impI)
    subgoal premises h
      unfolding submit_fallback [OF assms h [THEN conjunct1] h [THEN conjunct2]]
      by (simp add: Let_def localReportItem_def body)
    subgoal premises h
    proof -
      from h obtain st where "userStats s = Some st" and "credits_remaining st < 1"
        by blast
      then show ?thesis
        by (rule submit_refused [OF assms])
    qed
    subgoal premises h
      unfolding submit_accepted [OF assms h]
      by (simp add: Let_def)
    done
qed

text \<open>
  On the remote user with 50 credits, asking \<open>why?\<close> with one file: an Unreachable
  submission ends in the local report, whose text is written out, and an accepted one
  starts the polling. On the local user a rejected submission ends in the local report.
\<close>

theorem offline_submit_synthesizes_report_witness:
  "reports (snd (submitResearchQuestion 41 42 ''2025-01-01T00:00:00.000Z'' Unreachable
                   (asking online))) = [local_item]
   \<and> report_text (item_report local_item)
       = ''Key Findings'' @ [CHR 0x0A] @
         ''- Offline mode: generated a local report.'' @ [CHR 0x0A] @
         ''- Your question: why?'' @ [CHR 0x0A, CHR 0x0A] @
         ''Supporting Evidence'' @ [CHR 0x0A] @
         ''- Files provided: paper.pdf'' @ [CHR 0x0A, CHR 0x0A] @
         ''Actionable Recommendations'' @ [CHR 0x0A] @
         ''- Connect the backend to generate AI-powered reports.'' @ [CHR 0x0A, CHR 0x0A] @
         ''Sources Referenced'' @ [CHR 0x0A] @
         ''- paper.pdf''
   \<and> question (snd (submitResearchQuestion 41 42 ''2025-01-01T00:00:00.000Z'' Unreachable
                      (asking online))) = []
   \<and> activeTab (snd (submitResearchQuestion 41 42 ''2025-01-01T00:00:00.000Z'' Unreachable
                       (asking online))) = ''reports''
   \<and> toasts (snd (submitResearchQuestion 41 42 ''2025-01-01T00:00:00.000Z'' Unreachable
                    (asking online))) = [ToastSuccess ''Local report generated (offline mode)'']
   \<and> fst (submitResearchQuestion 41 42 ''2025-01-01T00:00:00.000Z'' (Ok ''q-1'')
             (asking online)) = Some ''q-1''
   \<and> polling (snd (submitResearchQuestion 41 42 ''2025-01-01T00:00:00.000Z'' (Ok ''q-1'')
                     (asking online))) = [(''q-1'', alice)]
   \<and> reports (snd (submitResearchQuestion 41 42 ''2025-01-01T00:00:00.000Z'' (Rejected None)
                      (asking offline)))
       = [localReportItem 41 42 ''2025-01-01T00:00:00.000Z'' offline_user ''why?'' [paper]]"
proof -
  have a: "trim (question (asking online)) \<noteq> []" "currentUser (asking online) = Some alice"
    by (simp_all add: asking_def online_def trim_examples)
  have b: "trim (question (asking offline)) \<noteq> []"
    "currentUser (asking offline) = Some offline_user"
    by (simp_all add: asking_def offline_def trim_examples)
  have form: "question (asking online) = ''why?''" "uploadedFiles (asking online) = [paper]"
    "reports (asking online) = []" "toasts (asking online) = []"
    "polling (asking online) = []" "userStats (asking online) = Some stats50"
    "question (asking offline) = ''why?''" "uploadedFiles (asking offline) = [paper]"
    "reports (asking offline) = []" "userStats (asking offline) = None"
    "credits_remaining stats50 = 50"
    by (simp_all add: asking_def online_def offline_def initial_def stats50_def)
  show ?thesis
    using offline_submit_synthesizes_report
        [OF a, where res = Unreachable and nq = 41 and nr = 42
           and now = "''2025-01-01T00:00:00.000Z''" and qid = "''q-1''"]
      offline_submit_synthesizes_report
        [OF b, where res = "Rejected None" and d = None and nq = 41 and nr = 42
           and now = "''2025-01-01T00:00:00.000Z''"]
      local_offline_user
    by (simp add: Let_def local_item_def localReportItem_def reportText_def nl_def form paper_def)
qed

text \<open>
  C1 as stated fails. In the session where every call is Unreachable, the hundred-first
  question is refused for lack of credits: the collection stays at a hundred reports.
  A local user whose submission the backend accepts gets a question id and no report.
  The citations of a local report are not the file names. A question of blanks only is
  refused.
\<close>

theorem offline_submit_not_always_a_report:
  "length (reports (run (initial None) (startup @ rounds 100))) = 100
   \<and> length (reports (run (initial None) (startup @ rounds 100 @ ask))) = 100
   \<and> last (toasts (run (initial None) (startup @ rounds 100 @ ask)))
       = ToastError ''Insufficient credits. You need 1 credit to ask a question.''
   \<and> fst (submitResearchQuestion 41 42 ''2025-01-01T00:00:00.000Z'' (Ok ''q-1'')
             (asking offline)) = Some ''q-1''
   \<and> reports (snd (submitResearchQuestion 41 42 ''2025-01-01T00:00:00.000Z'' (Ok ''q-1'')
                      (asking offline))) = []
   \<and> citations (item_report (hd (reports (snd (submitResearchQuestion 41 42
        ''2025-01-01T00:00:00.000Z'' Unreachable (asking offline))))))
       \<noteq> map file_name (uploadedFiles (asking offline))
   \<and> snd (submitResearchQuestion 41 42 ''2025-01-01T00:00:00.000Z'' Unreachable
             (offline\<lparr>question := ''  ''\<rparr>))
       = toast_error ''Please enter a research question'' (offline\<lparr>question := ''  ''\<rparr>)"
proof -
  let ?s = "run (initial None) (startup @ rounds 100)"
  let ?t = "?s\<lparr>question := ''why?''\<rparr>"
  have s: "currentUser ?s = Some offline_user"
    "userStats ?s = Some \<lparr>credits_remaining = 0, total_questions_asked = 100,
                           reports_generated = 100, credits_used = 100\<rparr>"
    "length (reports ?s) = 100"
    using run_rounds [of 100] by simp_all
  have t: "trim (question ?t) \<noteq> []" "currentUser ?t = Some offline_user"
    "userStats ?t = Some \<lparr>credits_remaining = 0, total_questions_asked = 100,
                           reports_generated = 100, credits_used = 100\<rparr>"
    "credits_remaining \<lparr>credits_remaining = 0, total_questions_asked = 100,
                         reports_generated = 100, credits_used = 100\<rparr> < 1"
    using s by (simp_all add: trim_examples)
  have "run (initial None) (startup @ rounds 100 @ ask) = run ?s ask"
    using run_append [of "initial None" "startup @ rounds 100" ask] by simp
  also have "\<dots> = snd (submitResearchQuestion 41 42 ''2025-01-01T00:00:00.000Z'' Unreachable ?t)"
    by (simp add: run_def ask_def)
  also have "\<dots> = ?t\<lparr>toasts := toasts ?t @
        [ToastError ''Insufficient credits. You need 1 credit to ask a question.'']\<rparr>"
    by (simp add: submit_refused [OF t])
  finally have refused: "run (initial None) (startup @ rounds 100 @ ask)
      = ?t\<lparr>toasts := toasts ?t @
          [ToastError ''Insufficient credits. You need 1 credit to ask a question.'']\<rparr>" .
  have "length (reports (run (initial None) (startup @ rounds 100 @ ask))) = 100"
    unfolding refused using s(3) by simp
  moreover have "last (toasts (run (initial None) (startup @ rounds 100 @ ask)))
       = ToastError ''Insufficient credits. You need 1 credit to ask a question.''"
    unfolding refused by simp
  moreover have "fst (submitResearchQuestion 41 42 ''2025-01-01T00:00:00.000Z'' (Ok ''q-1'')
             (asking offline)) = Some ''q-1''
     \<and> reports (snd (submitResearchQuestion 41 42 ''2025-01-01T00:00:00.000Z'' (Ok ''q-1'')
                      (asking offline))) = []"
    by (simp add: submitResearchQuestion_def Let_def effect_defs asking_def offline_def
        initial_def trim_examples)
  moreover have "citations (item_report (hd (reports (snd (submitResearchQuestion 41 42
        ''2025-01-01T00:00:00.000Z'' Unreachable (asking offline))))))
       \<noteq> map file_name (uploadedFiles (asking offline))"
    by (simp add: submitResearchQuestion_def submitFailed_def Let_def effect_defs
        localReportItem_def asking_def offline_def initial_def paper_def trim_examples
        isNetworkError_def)
  moreover have "snd (submitResearchQuestion 41 42 ''2025-01-01T00:00:00.000Z'' Unreachable
             (offline\<lparr>question := ''  ''\<rparr>))
       = toast_error ''Please enter a research question'' (offline\<lparr>question := ''  ''\<rparr>)"
    by (simp add: submitResearchQuestion_def trim_examples)
  ultimately show ?thesis using s(3) by blast
qed

section \<open>Credits\<close>

text \<open>
  C2, as the code has it. A session that holds no negative credit count (in its stats, in
  its active and its cached user, in the users of its polling loops) holds none after any
  sequence of events in which the backend sends none; so does a session started over a
  cache without one. The client debits in one place, the local completion of a question,
  and once per submission: with the stats known, at least one credit and all four numbers
  staying safe integers, the credits go down by exactly one and the three counters up by
  one; with the stats unknown they become the credits of the user record (or 100) less
  one, but not less than zero, and the counters become one. With less than one credit
  known nothing is submitted and nothing debited; an accepted submission debits nothing
  at that point, nor does a rejected one of a user who is not local. Polling does no
  arithmetic: unless it ends completed the stats are what they were, and when it ends
  completed they are what the refresh for the user who started the loop gives, the
  defaults of that user when he is local or the backend unreachable, the response of the
  backend when there is one, and what they were when the refresh is rejected.
\<close>

theorem credits_accounting:
  "(nonNegative s \<and> list_all backendOk es \<longrightarrow> nonNegative (run s es))
   \<and> (storedNonNegative cache \<and> list_all backendOk es \<longrightarrow> nonNegative (run (initial cache) es))
   \<and> (trim (question s) \<noteq> [] \<and> currentUser s = Some u \<and> userStats s = Some st
        \<and> 1 \<le> credits_remaining st
        \<and> isSafeInteger (credits_remaining st)
        \<and> isSafeInteger (total_questions_asked st + 1)
        \<and> isSafeInteger (reports_generated st + 1)
        \<and> isSafeInteger (credits_used st + 1)
        \<and> (res = Unreachable \<or> (res = Rejected d \<and> startsWith (uid u) ''local-''))
      \<longrightarrow> userStats (snd (submitResearchQuestion nq nr now res s))
            = Some \<lparr>credits_remaining = credits_remaining st - 1,
                    total_questions_asked = total_questions_asked st + 1,
                    reports_generated = reports_generated st + 1,
                    credits_used = credits_used st + 1\<rparr>)
   \<and> (trim (question s) \<noteq> [] \<and> currentUser s = Some u \<and> userStats s = None
        \<and> isSafeInteger ((case credits u of Some c \<Rightarrow> c | None \<Rightarrow> 100) - 1)
        \<and> (res = Unreachable \<or> (res = Rejected d \<and> startsWith (uid u) ''local-''))
      \<longrightarrow> userStats (snd (submitResearchQuestion nq nr now res s))
            = Some \<lparr>credits_remaining = max 0 ((case credits u of Some c \<Rightarrow> c | None \<Rightarrow> 100) - 1),
                    total_questions_asked = 1, reports_generated = 1, credits_used = 1\<rparr>)
   \<and> (userStats s = Some st \<and> credits_remaining st < 1
      \<longrightarrow> userStats (snd (submitResearchQuestion nq nr now res s)) = userStats s)
   \<and> userStats (snd (submitResearchQuestion nq nr now (Ok qid) s)) = userStats s
   \<and> (currentUser s = Some u \<and> \<not> startsWith (uid u) ''local-''
      \<longrightarrow> userStats (snd (submitResearchQuestion nq nr now (Rejected d) s)) = userStats s)
   \<and> userStats (snd (pollForResults v q rs sr rr s))
       = (if fst (pollForResults v q rs sr rr s) = Completed
          then (if startsWith (uid v) ''local-''
                then Some \<lparr>credits_remaining = (case credits v of Some c \<Rightarrow> c | None \<Rightarrow> 100),
                           total_questions_asked = 0, reports_generated = 0, credits_used = 0\<rparr>
                else case sr of
                       Ok data \<Rightarrow> Some data
                     | Unreachable \<Rightarrow>
                         Some \<lparr>credits_remaining = (case credits v of Some c \<Rightarrow> c | None \<Rightarrow> 100),
                               total_questions_asked = 0, reports_generated = 0,
                               credits_used = 0\<rparr>
                     | Rejected d' \<Rightarrow> userStats s)
          else userStats s)"
proof -
  have known: "userStats (snd (submitResearchQuestion nq nr now res s))
            = Some \<lparr>credits_remaining = credits_remaining st - 1,
                    total_questions_asked = total_questions_asked st + 1,
                    reports_generated = reports_generated st + 1,
                    credits_used = credits_used st + 1\<rparr>"
    if "trim (question s) \<noteq> []" and "currentUser s = Some u" and "userStats s = Some st"
      and "1 \<le> credits_remaining st"
      and "isSafeInteger (credits_remaining st)"
      and "isSafeInteger (total_questions_asked st + 1)"
      and "isSafeInteger (reports_generated st + 1)"
      and "isSafeInteger (credits_used st + 1)"
      and "res = Unreachable \<or> (res = Rejected d \<and> startsWith (uid u) ''local-'')"
  proof -
    have credit: "case userStats s of Some st \<Rightarrow> 1 \<le> credits_remaining st | None \<Rightarrow> True"
      using that(3,4) by simp
    have less: "isSafeInteger (credits_remaining st - 1)"
      using that(4,5) by (simp add: isSafeInteger_def)
    show ?thesis
      unfolding submit_fallback [OF that(1,2) credit that(9)]
      using that(3,4,6,7,8) less by (simp add: debit_def Let_def toDouble_safe)
  qed
  have unknown: "userStats (snd (submitResearchQuestion nq nr now res s))
            = Some \<lparr>credits_remaining = max 0 ((case credits u of Some c \<Rightarrow> c | None \<Rightarrow> 100) - 1),
                    total_questions_asked = 1, reports_generated = 1, credits_used = 1\<rparr>"
    if "trim (question s) \<noteq> []" and "currentUser s = Some u" and "userStats s = None"
      and "isSafeInteger ((case credits u of Some c \<Rightarrow> c | None \<Rightarrow> 100) - 1)"
      and "res = Unreachable \<or> (res = Rejected d \<and> startsWith (uid u) ''local-'')"
  proof -
    have credit: "case userStats s of Some st \<Rightarrow> 1 \<le> credits_remaining st | None \<Rightarrow> True"
      using that(3) by simp
    have one: "isSafeInteger 1"
      by (simp add: isSafeInteger_def)
    show ?thesis
      unfolding submit_fallback [OF that(1,2) credit that(5)]
      using that(3,4) one by (simp add: debit_def Let_def toDouble_safe)
  qed
  have polled: "userStats (snd (pollForResults v q rs sr rr s))
       = (if fst (pollForResults v q rs sr rr s) = Completed
          then (if startsWith (uid v) ''local-''
                then Some \<lparr>credits_remaining = (case credits v of Some c \<Rightarrow> c | None \<Rightarrow> 100),
                           total_questions_asked = 0, reports_generated = 0, credits_used = 0\<rparr>
                else case sr of
                       Ok data \<Rightarrow> Some data
                     | Unreachable \<Rightarrow>
                         Some \<lparr>credits_remaining = (case credits v of Some c \<Rightarrow> c | None \<Rightarrow> 100),
                               total_questions_asked = 0, reports_generated = 0,
                               credits_used = 0\<rparr>
                     | Rejected d' \<Rightarrow> userStats s)
          else userStats s)"
  proof -
    have refresh: "userStats (fetchUserStats (Some v) sr t)
        = (if startsWith (uid v) ''local-''
           then Some \<lparr>credits_remaining = (case credits v of Some c \<Rightarrow> c | None \<Rightarrow> 100),
                      total_questions_asked = 0, reports_generated = 0, credits_used = 0\<rparr>
           else case sr of
                  Ok data \<Rightarrow> Some data
                | Unreachable \<Rightarrow>
                    Some \<lparr>credits_remaining = (case credits v of Some c \<Rightarrow> c | None \<Rightarrow> 100),
                          total_questions_asked = 0, reports_generated = 0,
                          credits_used = 0\<rparr>
                | Rejected d' \<Rightarrow> userStats t)" for t
      by (simp add: fetchUserStats_def effect_defs defaultStats_def Let_def
          split: outcome.split)
    have loop: "userStats (snd (poll v q a rs sr rr t))
        = (if fst (poll v q a rs sr rr t) = Completed
           then userStats (fetchUserStats (Some v) sr t) else userStats t)" for a t
    proof (induction rs arbitrary: a t)
      case Nil
      then show ?case by (simp add: send_def)
    next
      case (Cons r rs)
      have same: "userStats (fetchUserStats (Some v) sr (axios (GetResearch q) r' t))
          = userStats (fetchUserStats (Some v) sr t)" for r' :: "string outcome"
        by (simp add: refresh split: outcome.split)
      have again: "userStats (snd (poll v q (a + 1) rs sr rr (axios (GetResearch q) r t)))
           = (if fst (poll v q (a + 1) rs sr rr (axios (GetResearch q) r t)) = Completed
              then userStats (fetchUserStats (Some v) sr t) else userStats t)"
        using Cons.IH [of "a + 1" "axios (GetResearch q) r t"] same [of r] by simp
      have completed: "userStats ((fetchUserReports (Some v) rr (fetchUserStats (Some v) sr
            (toast_success ''Research report generated!''
               ((axios (GetResearch q) r' t)\<lparr>isProcessing := False\<rparr>))))
               \<lparr>activeTab := ''reports''\<rparr>)
           = userStats (fetchUserStats (Some v) sr t)" for r' :: "string outcome"
        by (simp add: refresh toast_success_def split: outcome.split)
      have stopped: "userStats (toast_error m
            ((axios (GetResearch q) r' t)\<lparr>isProcessing := False\<rparr>)) = userStats t"
        for m and r' :: "string outcome"
        by (simp add: toast_error_def)
      show ?case
      proof (cases r)
        case (Ok st)
        then show ?thesis using again completed stopped by (simp add: Let_def)
      next
        case Unreachable
        then show ?thesis using again stopped by (simp add: Let_def)
      next
        case (Rejected d)
        then show ?thesis using stopped by (simp add: Let_def)
      qed
    qed
    show ?thesis
      unfolding pollForResults_def loop [of 0 s] refresh [of s] by simp
  qed
  have started: "nonNegative (run (initial cache) es)"
    if "storedNonNegative cache" and "list_all backendOk es"
    using nonNegative_run [OF nonNegative_initial [OF that(1)] that(2)] .
  show ?thesis
    using nonNegative_run [of s es] started known unknown polled
      submit_keeps_stats_without_credit [of s st nq nr now res]
      submit_accepted_keeps_stats [of nq nr now qid s]
      submit_rejected_keeps_stats [of s u nq nr now d]
    by blast
qed

text \<open>
  On the remote user with 50 credits: a rejected refresh, a question and its local
  completion keep the counts non-negative, and that completion leaves 49 credits. On
  the local user without stats it leaves 99. A polling loop of the remote user that ends
  completed while the backend answers the refresh with 49 credits leaves those.
\<close>

theorem credits_accounting_witness:
  "nonNegative (run online
       [FetchUserStats (Rejected None), SetQuestion ''why?'',
        SubmitResearchQuestion 41 42 ''2025-01-01T00:00:00.000Z'' Unreachable])
   \<and> nonNegative (run (initial (Some (Json alice)))
         [CheckAuthStatus 41 42 ''2025-01-01T00:00:00.000Z'' Unreachable Unreachable,
          FetchUserStats Unreachable])
   \<and> userStats (snd (submitResearchQuestion 41 42 ''2025-01-01T00:00:00.000Z'' Unreachable
                       (asking online)))
       = Some \<lparr>credits_remaining = 49, total_questions_asked = 51, reports_generated = 51,
               credits_used = 51\<rparr>
   \<and> userStats (snd (submitResearchQuestion 41 42 ''2025-01-01T00:00:00.000Z'' Unreachable
                       (asking offline)))
       = Some \<lparr>credits_remaining = 99, total_questions_asked = 1, reports_generated = 1,
               credits_used = 1\<rparr>
   \<and> userStats (snd (pollForResults alice ''q-1'' [Ok ''completed'']
                       (Ok (stats50\<lparr>credits_remaining := 49\<rparr>)) (Ok []) online))
       = Some (stats50\<lparr>credits_remaining := 49\<rparr>)"
proof -
  have inv: "nonNegative online"
    by (simp add: nonNegative_def online_def initial_def creditsOk_def alice_def stats50_def)
  have cache: "storedNonNegative (Some (Json alice))"
    by (simp add: creditsOk_def alice_def)
  have evs: "list_all backendOk
       [FetchUserStats (Rejected None), SetQuestion ''why?'',
        SubmitResearchQuestion 41 42 ''2025-01-01T00:00:00.000Z'' Unreachable]"
    "list_all backendOk
       [CheckAuthStatus 41 42 ''2025-01-01T00:00:00.000Z'' Unreachable Unreachable,
        FetchUserStats Unreachable]"
    by (simp_all add: statsOk_def userOk_def)
  have asked: "trim (question (asking online)) \<noteq> []" "currentUser (asking online) = Some alice"
    "userStats (asking online) = Some stats50" "1 \<le> credits_remaining stats50"
    "isSafeInteger (credits_remaining stats50)"
    "isSafeInteger (total_questions_asked stats50 + 1)"
    "isSafeInteger (reports_generated stats50 + 1)"
    "isSafeInteger (credits_used stats50 + 1)"
    by (simp_all add: asking_def online_def stats50_def trim_examples isSafeInteger_def)
  have local: "trim (question (asking offline)) \<noteq> []"
    "currentUser (asking offline) = Some offline_user"
    "userStats (asking offline) = None"
    "isSafeInteger ((case credits offline_user of Some c \<Rightarrow> c | None \<Rightarrow> 100) - 1)"
    by (simp_all add: asking_def offline_def initial_def offline_user_def trim_examples
        isSafeInteger_def)
  have completed: "fst (pollForResults alice ''q-1'' [Ok ''completed'']
                       (Ok (stats50\<lparr>credits_remaining := 49\<rparr>)) (Ok []) online) = Completed"
    by (simp add: pollForResults_def Let_def)
  show ?thesis
    using credits_accounting
      [where s = online
         and es = "[FetchUserStats (Rejected None), SetQuestion ''why?'',
                    SubmitResearchQuestion 41 42 ''2025-01-01T00:00:00.000Z'' Unreachable]"]
      credits_accounting
      [where cache = "Some (Json alice)"
         and es = "[CheckAuthStatus 41 42 ''2025-01-01T00:00:00.000Z'' Unreachable Unreachable,
                    FetchUserStats Unreachable]"]
      credits_accounting [where s = "asking online" and u = alice and st = stats50
                            and res = Unreachable and nq = 41 and nr = 42
                            and now = "''2025-01-01T00:00:00.000Z''"]
      credits_accounting [where s = "asking offline" and u = offline_user
                            and res = Unreachable and nq = 41 and nr = 42
                            and now = "''2025-01-01T00:00:00.000Z''"]
      credits_accounting [where s = online and v = alice and q = "''q-1''"
                            and rs = "[Ok ''completed'']"
                            and sr = "Ok (stats50\<lparr>credits_remaining := 49\<rparr>)" and rr = "Ok []"]
      inv cache evs asked local completed not_local_alice
    by (simp add: stats50_def offline_user_def)
qed

text \<open>
  C2 as stated fails. A question of the remote user with 50 credits is reported
  completed by the poll. When the stats refresh that follows is rejected, the credits
  are still 50; when it is unreachable, they become the 100 of the user record. And a
  user whose record holds no credit, the stats not yet known and the backend gone, has
  a question completed locally and is left with the 0 credits of the record.
\<close>

theorem completed_question_not_debited:
  "fst (pollForResults alice ''q-1'' [Ok ''completed''] (Rejected None) (Ok []) online)
     = Completed
   \<and> userStats (snd (pollForResults alice ''q-1'' [Ok ''completed''] (Rejected None) (Ok [])
                       online)) = Some stats50
   \<and> credits_remaining stats50 = 50
   \<and> fst (pollForResults alice ''q-1'' [Ok ''completed''] Unreachable (Ok []) online)
       = Completed
   \<and> userStats (snd (pollForResults alice ''q-1'' [Ok ''completed''] Unreachable (Ok [])
                       online))
       = Some \<lparr>credits_remaining = 100, total_questions_asked = 0, reports_generated = 0,
               credits_used = 0\<rparr>
   \<and> credits penniless = Some 0
   \<and> status (item_question (hd (reports (snd (submitResearchQuestion 41 42
        ''2025-01-01T00:00:00.000Z'' Unreachable
        ((initial None)\<lparr>currentUser := Some penniless, question := ''why?''\<rparr>))))))
       = ''completed''
   \<and> userStats (snd (submitResearchQuestion 41 42 ''2025-01-01T00:00:00.000Z'' Unreachable
                       ((initial None)\<lparr>currentUser := Some penniless, question := ''why?''\<rparr>)))
       = Some \<lparr>credits_remaining = 0, total_questions_asked = 1, reports_generated = 1,
               credits_used = 1\<rparr>"
proof -
  have "isSafeInteger ((case credits penniless of Some c \<Rightarrow> c | None \<Rightarrow> 100) - 1)"
    by (simp add: penniless_def isSafeInteger_def)
  then have "debit penniless None
      = \<lparr>credits_remaining = 0, total_questions_asked = 1, reports_generated = 1,
         credits_used = 1\<rparr>"
    by (simp add: debit_unknown) (simp add: penniless_def)
  then have local: "status (item_question (hd (reports (snd (submitResearchQuestion 41 42
        ''2025-01-01T00:00:00.000Z'' Unreachable
        ((initial None)\<lparr>currentUser := Some penniless, question := ''why?''\<rparr>))))))
       = ''completed''
    \<and> userStats (snd (submitResearchQuestion 41 42 ''2025-01-01T00:00:00.000Z'' Unreachable
                       ((initial None)\<lparr>currentUser := Some penniless, question := ''why?''\<rparr>)))
       = Some \<lparr>credits_remaining = 0, total_questions_asked = 1, reports_generated = 1,
               credits_used = 1\<rparr>"
    by (simp add: submitResearchQuestion_def submitFailed_def Let_def effect_defs
        localReportItem_def initial_def trim_examples isNetworkError_def)
  have remote: "fst (pollForResults alice ''q-1'' [Ok ''completed''] (Rejected None) (Ok []) online)
     = Completed
   \<and> userStats (snd (pollForResults alice ''q-1'' [Ok ''completed''] (Rejected None) (Ok [])
                       online)) = Some stats50
   \<and> credits_remaining stats50 = 50
   \<and> fst (pollForResults alice ''q-1'' [Ok ''completed''] Unreachable (Ok []) online)
       = Completed
   \<and> userStats (snd (pollForResults alice ''q-1'' [Ok ''completed''] Unreachable (Ok [])
                       online))
       = Some \<lparr>credits_remaining = 100, total_questions_asked = 0, reports_generated = 0,
               credits_used = 0\<rparr>"
    by (simp add: pollForResults_def fetchUserStats_def fetchUserReports_def effect_defs
        defaultStats_def online_def initial_def alice_def stats50_def startsWith_def Let_def)
  have "credits penniless = Some 0"
    by (simp add: penniless_def)
  then show ?thesis
    using local remote by blast
qed

section \<open>Polling\<close>

text \<open>
  C3. The scenarios of the polling loop, on the code, whoever started the loop. With 29 responses \<open>processing\<close> and
  then \<open>completed\<close> the loop ends completed and the view is the reports. With 30 responses
  \<open>processing\<close> the loop has not given up: it has sent a 31st request and waits for its
  response. If that response is \<open>completed\<close> the loop ends completed; it ends timed out
  only when a 31st response is \<open>processing\<close> too.
\<close>

theorem poll_thirty_first_request:
  "fst (pollForResults u q (replicate 29 (Ok ''processing'') @ [Ok ''completed'']) sr rr s)
     = Completed
   \<and> activeTab (snd (pollForResults u q (replicate 29 (Ok ''processing'') @ [Ok ''completed''])
                       sr rr s)) = ''reports''
   \<and> fst (pollForResults u q (replicate 30 (Ok ''processing'')) sr rr s) = Waiting
   \<and> length (requests (snd (pollForResults u q (replicate 30 (Ok ''processing'')) sr rr s)))
       = length (requests s) + 31
   \<and> fst (pollForResults u q (replicate 30 (Ok ''processing'') @ [Ok ''completed'']) sr rr s)
       = Completed
   \<and> fst (pollForResults u q (replicate 31 (Ok ''processing'')) sr rr s) = TimedOut"
proof -
  have run: "k \<le> 30 \<Longrightarrow> pollForResults u q (replicate k (Ok ''processing'') @ rs) sr rr s
        = poll u q k rs sr rr (s\<lparr>requests := requests s @ replicate k (GetResearch q)\<rparr>)"
    for k rs
    using poll_notYet_prefix [OF notYet_replicate(1), where a = 0 and k1 = k and rs = rs
        and u = u and q = q and sr = sr and rr = rr and s = s]
    by (simp add: pollForResults_def maxAttempts_def answered_processing)
  have split31: "replicate 31 (Ok ''processing'')
               = replicate 30 (Ok ''processing'') @ [Ok ''processing'' :: string outcome]"
  proof -
    have "replicate (30 + 1) (Ok ''processing'' :: string outcome)
        = replicate 30 (Ok ''processing'') @ replicate 1 (Ok ''processing'')"
      by (rule replicate_add)
    then show ?thesis by simp
  qed
  have "fst (pollForResults u q (replicate 29 (Ok ''processing'') @ [Ok ''completed'']) sr rr s)
          = Completed"
    by (simp add: run)
  moreover have "activeTab (snd (pollForResults u q
        (replicate 29 (Ok ''processing'') @ [Ok ''completed'']) sr rr s)) = ''reports''"
    by (simp add: run)
  moreover have "fst (pollForResults u q (replicate 30 (Ok ''processing'')) sr rr s) = Waiting"
    using run [of 30 "[]"] by simp
  moreover have "length (requests (snd (pollForResults u q (replicate 30 (Ok ''processing''))
        sr rr s))) = length (requests s) + 31"
    using run [of 30 "[]"] by (simp add: send_def)
  moreover have "fst (pollForResults u q (replicate 30 (Ok ''processing'') @ [Ok ''completed''])
        sr rr s) = Completed"
    by (simp add: run)
  moreover have "fst (pollForResults u q (replicate 31 (Ok ''processing'')) sr rr s) = TimedOut"
    unfolding split31 by (simp add: run maxAttempts_def)
  ultimately show ?thesis by blast
qed

section \<open>A rejected submission\<close>




section \<open>Identity resolver: the verified identity\<close>

text \<open>
  C5, as the code has it. When a cached identity exists and its verification succeeds,
  the active identity is the record the backend returned. Local storage is not written:
  it still holds the record that was cached, and the list of writes is what it was.
\<close>

theorem verified_identity_is_backend_response:
  assumes "localStorage s = Some (Json user)"
  shows "currentUser (checkAuthStatus e i n (Ok data) p s) = Some data
       \<and> localStorage (checkAuthStatus e i n (Ok data) p s) = Some (Json user)
       \<and> storage_writes (checkAuthStatus e i n (Ok data) p s) = storage_writes s
       \<and> requests (checkAuthStatus e i n (Ok data) p s) = requests s @ [GetUsers (uid user)]"
  using assms by (simp add: checkAuthStatus_def effect_defs)

theorem verified_identity_is_backend_response_witness:
  "currentUser (checkAuthStatus 41 42 ''2025-01-01T00:00:00.000Z'' (Ok alice_refreshed)
                  Unreachable (initial (Some (Json alice)))) = Some alice_refreshed
   \<and> localStorage (checkAuthStatus 41 42 ''2025-01-01T00:00:00.000Z'' (Ok alice_refreshed)
                      Unreachable (initial (Some (Json alice)))) = Some (Json alice)"
proof -
  have cached: "localStorage (initial (Some (Json alice))) = Some (Json alice)"
    by (simp add: initial_def)
  show ?thesis
    using verified_identity_is_backend_response
      [OF cached, of 41 42 "''2025-01-01T00:00:00.000Z''" alice_refreshed Unreachable]
    by simp
qed

text \<open>
  C5 as stated fails: the backend returns the cached user with 70 credits instead of
  100; that record becomes the active identity, and local storage neither holds it nor
  was written.
\<close>

theorem refreshed_identity_not_persisted:
  "currentUser (checkAuthStatus 41 42 ''2025-01-01T00:00:00.000Z'' (Ok alice_refreshed)
                  Unreachable (initial (Some (Json alice)))) = Some alice_refreshed
   \<and> localStorage (checkAuthStatus 41 42 ''2025-01-01T00:00:00.000Z'' (Ok alice_refreshed)
                      Unreachable (initial (Some (Json alice)))) \<noteq> Some (Json alice_refreshed)
   \<and> storage_writes (checkAuthStatus 41 42 ''2025-01-01T00:00:00.000Z'' (Ok alice_refreshed)
                        Unreachable (initial (Some (Json alice)))) = []"
  by (simp add: checkAuthStatus_def effect_defs initial_def alice_refreshed_def alice_def)

section \<open>Polling without a response\<close>

text \<open>
  C6, on the code, whoever started the loop. An Unreachable poll with attempts left is
  handled as a \<open>processing\<close> status is, but for the line the interceptor logs; at
  \<open>maxAttempts\<close> it ends the loop with the status-check error, as a rejected poll does at
  any count. After 30 Unreachable polls, though, the loop has not reported anything: it
  has sent a 31st request and waits, its only traces the 30 lines of the interceptor.
  The status-check error comes with the 31st Unreachable poll.
\<close>

theorem unreachable_poll_thirty_first_request:
  "pollForResults u q (replicate 30 Unreachable) sr rr s
     = (Waiting,
        s\<lparr>requests := requests s @ replicate 31 (GetResearch q),
          console_out := console_out s @ replicate 30 (ConsoleError ''Axios error:'')\<rparr>)
   \<and> pollForResults u q (replicate 31 Unreachable) sr rr s
     = (StatusError,
        s\<lparr>requests := requests s @ replicate 31 (GetResearch q),
          console_out := console_out s @ replicate 31 (ConsoleError ''Axios error:''),
          isProcessing := False,
          toasts := toasts s @ [ToastError ''Error checking research status'']\<rparr>)
   \<and> poll u q a (Unreachable # rs) sr rr s
     = (if a < maxAttempts
        then poll u q a (Ok ''processing'' # rs) sr rr
               (s\<lparr>console_out := console_out s @ [ConsoleError ''Axios error:'']\<rparr>)
        else (StatusError,
              s\<lparr>requests := requests s @ [GetResearch q],
                console_out := console_out s @ [ConsoleError ''Axios error:''],
                isProcessing := False,
                toasts := toasts s @ [ToastError ''Error checking research status'']\<rparr>))
   \<and> poll u q a (Rejected d # rs) sr rr s
     = (StatusError,
        s\<lparr>requests := requests s @ [GetResearch q],
          console_out := console_out s @ [ConsoleError ''Axios error:''],
          isProcessing := False,
          toasts := toasts s @ [ToastError ''Error checking research status'']\<rparr>)"
proof -
  have run: "k \<le> 30 \<Longrightarrow> pollForResults u q (replicate k Unreachable @ rs') sr rr s
        = poll u q k rs' sr rr
            (s\<lparr>requests := requests s @ replicate k (GetResearch q),
               console_out := console_out s @ replicate k (ConsoleError ''Axios error:'')\<rparr>)"
    for k rs'
    using poll_notYet_prefix [OF notYet_replicate(2), where a = 0 and k1 = k and rs = rs'
        and u = u and q = q and sr = sr and rr = rr and s = s]
    by (simp add: pollForResults_def maxAttempts_def answered_unreachable)
  have split31: "replicate 31 Unreachable
               = replicate 30 Unreachable @ [Unreachable :: string outcome]"
  proof -
    have "replicate (30 + 1) (Unreachable :: string outcome)
        = replicate 30 Unreachable @ replicate 1 Unreachable"
      by (rule replicate_add)
    then show ?thesis by simp
  qed
  have more: "replicate 30 x @ [x] = replicate 31 x" for x :: 'a
  proof -
    have "replicate (30 + 1) x = replicate 30 x @ replicate 1 x"
      by (rule replicate_add)
    then show ?thesis by simp
  qed
  have "pollForResults u q (replicate 30 Unreachable) sr rr s
     = (Waiting,
        s\<lparr>requests := requests s @ replicate 31 (GetResearch q),
          console_out := console_out s @ replicate 30 (ConsoleError ''Axios error:'')\<rparr>)"
    using run [of 30 "[]"] by (simp add: send_def more)
  moreover have "pollForResults u q (replicate 31 Unreachable) sr rr s
     = (StatusError,
        s\<lparr>requests := requests s @ replicate 31 (GetResearch q),
          console_out := console_out s @ replicate 31 (ConsoleError ''Axios error:''),
          isProcessing := False,
          toasts := toasts s @ [ToastError ''Error checking research status'']\<rparr>)"
  proof -
    have last: "poll u q 30 [Unreachable] sr rr t
        = (StatusError,
           t\<lparr>requests := requests t @ [GetResearch q],
             console_out := console_out t @ [ConsoleError ''Axios error:''],
             isProcessing := False,
             toasts := toasts t @ [ToastError ''Error checking research status'']\<rparr>)" for t
      by (simp add: maxAttempts_def Let_def effect_defs)
    have first: "pollForResults u q (replicate 30 Unreachable @ [Unreachable]) sr rr s
        = poll u q 30 [Unreachable] sr rr
            (s\<lparr>requests := requests s @ replicate 30 (GetResearch q),
               console_out := console_out s @ replicate 30 (ConsoleError ''Axios error:'')\<rparr>)"
      using run [of 30 "[Unreachable]"] by (simp del: poll.simps)
    show ?thesis
      unfolding split31 first last
      by (simp add: more)
  qed
  moreover have "poll u q a (Unreachable # rs) sr rr s
     = (if a < maxAttempts
        then poll u q a (Ok ''processing'' # rs) sr rr
               (s\<lparr>console_out := console_out s @ [ConsoleError ''Axios error:'']\<rparr>)
        else (StatusError,
              s\<lparr>requests := requests s @ [GetResearch q],
                console_out := console_out s @ [ConsoleError ''Axios error:''],
                isProcessing := False,
                toasts := toasts s @ [ToastError ''Error checking research status'']\<rparr>))"
  proof (cases "a < maxAttempts")
    case True
    have "axios (GetResearch q) (Unreachable :: string outcome) s
        = axios (GetResearch q) (Ok ''processing'')
            (s\<lparr>console_out := console_out s @ [ConsoleError ''Axios error:'']\<rparr>)"
      by (simp add: effect_defs)
    then show ?thesis
      using True by (simp add: Let_def)
  next
    case False
    then show ?thesis
      by (simp add: Let_def effect_defs)
  qed
  moreover have "poll u q a (Rejected d # rs) sr rr s
     = (StatusError,
        s\<lparr>requests := requests s @ [GetResearch q],
          console_out := console_out s @ [ConsoleError ''Axios error:''],
          isProcessing := False,
          toasts := toasts s @ [ToastError ''Error checking research status'']\<rparr>)"
    by (simp add: Let_def effect_defs)
  ultimately show ?thesis by blast
qed

section \<open>Refreshing the stats\<close>

text \<open>
  C9. A stats fetch run for a user who is not a local one: when it fails as Unreachable
  it puts the local defaults in place of the stats (the credits of the user record, or
  100, and zero counters) and shows nothing, the only trace being the line the
  interceptor logs for every failed call; when it is rejected, the failure is logged, by
  the interceptor and by the fetch, and the stats, like the rest of the state, are what
  they were. Run for a local user it sets the defaults whatever the backend would answer,
  sends no request and logs nothing. The refresh that follows a change of the active user
  is such a fetch for that user.
\<close>

theorem stats_fetch_fallbacks:
  "(\<not> startsWith (uid u) ''local-'' \<longrightarrow>
      fetchUserStats (Some u) Unreachable s
        = s\<lparr>requests := requests s @ [GetStats (uid u)],
            console_out := console_out s @ [ConsoleError ''Axios error:''],
            userStats :=
              Some \<lparr>credits_remaining = (case credits u of Some c \<Rightarrow> c | None \<Rightarrow> 100),
                    total_questions_asked = 0, reports_generated = 0, credits_used = 0\<rparr>\<rparr>)
   \<and> (\<not> startsWith (uid u) ''local-'' \<longrightarrow>
      fetchUserStats (Some u) (Rejected d) s
        = s\<lparr>requests := requests s @ [GetStats (uid u)],
            console_out := console_out s @
              [ConsoleError ''Axios error:'', ConsoleError ''Failed to fetch user stats:'']\<rparr>)
   \<and> (startsWith (uid u) ''local-'' \<longrightarrow>
      fetchUserStats (Some u) res s
        = s\<lparr>userStats :=
              Some \<lparr>credits_remaining = (case credits u of Some c \<Rightarrow> c | None \<Rightarrow> 100),
                    total_questions_asked = 0, reports_generated = 0, credits_used = 0\<rparr>\<rparr>)
   \<and> (currentUser s = Some u \<longrightarrow>
      step s (FetchUserStats res) = fetchUserStats (Some u) res s)"
  by (simp add: fetchUserStats_def effect_defs defaultStats_def)

theorem stats_fetch_fallbacks_witness:
  "userStats (step online (FetchUserStats Unreachable))
     = Some \<lparr>credits_remaining = 100, total_questions_asked = 0, reports_generated = 0,
             credits_used = 0\<rparr>
   \<and> toasts (step online (FetchUserStats Unreachable)) = []
   \<and> userStats (step online (FetchUserStats (Rejected None))) = Some stats50
   \<and> console_out (step online (FetchUserStats (Rejected None)))
       = [ConsoleError ''Axios error:'', ConsoleError ''Failed to fetch user stats:'']
   \<and> userStats (step offline (FetchUserStats (Ok stats50)))
     = Some \<lparr>credits_remaining = 100, total_questions_asked = 0, reports_generated = 0,
             credits_used = 0\<rparr>
   \<and> requests (step offline (FetchUserStats (Ok stats50))) = []"
proof -
  have a: "currentUser online = Some alice"
    by (simp add: online_def)
  have b: "currentUser offline = Some offline_user"
    by (simp add: offline_def)
  have c: "userStats online = Some stats50" "requests offline = []" "toasts online = []"
    "console_out online = []"
    "credits alice = Some 100" "credits offline_user = Some 100"
    by (simp_all add: online_def offline_def initial_def alice_def offline_user_def)
  show ?thesis
    using stats_fetch_fallbacks [where u = alice and s = online and res = Unreachable
                                   and d = None]
      stats_fetch_fallbacks [where u = alice and s = online and res = "Rejected None"
                               and d = None]
      stats_fetch_fallbacks [where u = offline_user and s = offline and res = "Ok stats50"]
      not_local_alice local_offline_user a b
    by (simp add: c)
qed

section \<open>Refreshing the report history\<close>




end
